theory Spec2Isabelle
  imports Main "HOL-Library.AList"
begin

section \<open>Data model\<close>

text \<open>
  The wallet service of \<^verbatim>\<open>src/wallet/service.go\<close> keeps a map from wallet id to wallet
  and an index from the first address of each wallet to its id. Every exported method takes
  the service lock for its whole body, so a method is one atomic step on the service state.
\<close>

type_synonym bytes = string
type_synonym Address = string
type_synonym PubKey = string
type_synonym SecKey = string
type_synonym CoinType = string
type_synonym CryptoType = string

datatype WalletType = WalletTypeDeterministic | WalletTypeOther string

text \<open>
  Errors are values. The named constants are the ones \<^verbatim>\<open>service.go\<close> returns itself;
  \<open>ErrExternal\<close> is an error produced by a collaborator (disk, cipher, derivation), the
  wrapped errors are the \<^verbatim>\<open>fmt.Errorf\<close> results of \<^verbatim>\<open>NewService\<close>, and
  \<open>PanicIndexOutOfRange\<close> is the run-time panic of \<^verbatim>\<open>w.Entries[0]\<close> on an empty slice.
\<close>

datatype error =
    ErrWalletAPIDisabled
  | ErrSeedAPIDisabled
  | ErrWalletNotExist
  | ErrWalletEncrypted
  | ErrWalletNotEncrypted
  | ErrSeedUsed
  | ErrWalletNotDeterministic
  | ErrWalletRecoverSeedWrong
  | ErrWalletNameConflict
  | ErrExternal string
  | ErrCreateWalletDir error
  | ErrRemoveBackupFiles error
  | ErrLoadWallets error
  | ErrDuplicateWallet Address string
  | ErrEmptyWallet string
  | PanicIndexOutOfRange

record Entry =
  Address :: Address
  Public :: PubKey
  Secret :: SecKey

text \<open>
  Modelled from the spec: the \<^verbatim>\<open>Wallet\<close> type is declared outside \<^verbatim>\<open>service.go\<close>.
  The record has one field for each accessor the service calls (\<^verbatim>\<open>Filename()\<close>,
  \<^verbatim>\<open>Label()\<close>, \<^verbatim>\<open>coin()\<close>, \<^verbatim>\<open>cryptoType()\<close>, \<^verbatim>\<open>Type()\<close>, \<^verbatim>\<open>IsEncrypted()\<close>,
  \<^verbatim>\<open>Entries\<close>, \<^verbatim>\<open>timestamp()\<close>, \<^verbatim>\<open>seed()\<close>), which are the fields of the spec's data
  model (id, label, coinType, cryptoType, encrypted, entries, createdAt, seed); \<open>secrets\<close>
  is the opaque encrypted envelope of an encrypted wallet.
\<close>

record Wallet =
  Filename :: string
  Label :: string
  coin :: CoinType
  cryptoType :: CryptoType
  Type :: WalletType
  IsEncrypted :: bool
  Entries :: "Entry list"
  timestamp :: int
  seed :: string
  secrets :: "(bytes \<times> string \<times> SecKey list) option"

text \<open>
  Modelled from the spec: \<^verbatim>\<open>Options\<close> is declared outside \<^verbatim>\<open>service.go\<close>; the fields
  are the ones \<^verbatim>\<open>RecoverWallet\<close> and \<^verbatim>\<open>loadWallet\<close> set (\<^verbatim>\<open>Coin\<close>, \<^verbatim>\<open>Label\<close>,
  \<^verbatim>\<open>Seed\<close>, \<^verbatim>\<open>Encrypt\<close>, \<^verbatim>\<open>Password\<close>, \<^verbatim>\<open>CryptoType\<close>, \<^verbatim>\<open>GenerateN\<close>), prefixed with
  \<open>opt\<close> to keep them apart from the wallet's. \<^verbatim>\<open>GenerateN\<close> is a \<^verbatim>\<open>uint64\<close> that only
  ever receives \<^verbatim>\<open>uint64(len(w.Entries))\<close>, an exact conversion of a non-negative
  \<^verbatim>\<open>int\<close>, so counts are natural numbers.
\<close>

record Options =
  optCoin :: CoinType
  optLabel :: string
  optSeed :: string
  optEncrypt :: bool
  optPassword :: bytes
  optCryptoType :: CryptoType
  optGenerateN :: nat

record Config =
  WalletDir :: string
  CryptoType :: CryptoType
  EnableWalletAPI :: bool
  EnableSeedAPI :: bool

text \<open>
  \<^verbatim>\<open>Wallets\<close> is a Go map from wallet id to wallet (\<^verbatim>\<open>make(Wallets, n)\<close>,
  \<^verbatim>\<open>for k, w := range serv.wallets\<close>). \<^verbatim>\<open>setWallets\<close> and \<^verbatim>\<open>GetWallets\<close> range over
  it, so it is an association list; the order of the list is the order in which Go happens
  to iterate. \<^verbatim>\<open>firstAddrIDMap\<close> is only read, written and deleted by key.
\<close>

type_synonym Wallets = "(string \<times> Wallet) list"

record Service =
  wallets :: Wallets
  config :: Config
  firstAddrIDMap :: "string \<rightharpoonup> string"

text \<open>
  \<^verbatim>\<open>BalanceGetter\<close> is an interface with one method from addresses to balance pairs (or an
  error); the service only hands it on to \<^verbatim>\<open>NewWalletScanAhead\<close>.
\<close>

type_synonym BalanceGetter = "Address list \<Rightarrow> error + (nat \<times> nat) list"

text \<open>
  A callback \<^verbatim>\<open>func(*Wallet) error\<close> receives a wallet it may mutate and returns an
  error or nil. A Go closure hands its findings out through captured variables (as
  \<^verbatim>\<open>addrs\<close> and \<^verbatim>\<open>seed\<close> in \<^verbatim>\<open>NewAddresses\<close> and \<^verbatim>\<open>GetWalletSeed\<close>); here they are
  the second component of a successful result.
\<close>

type_synonym 'a callback = "Wallet \<Rightarrow> error + Wallet \<times> 'a"

section \<open>Collaborators\<close>

text \<open>
  The functions below are called by \<^verbatim>\<open>service.go\<close> and defined in other files of the
  package (persistence, the cipher, key derivation, wallet construction). They are
  parameters of the model: every operation takes the record of collaborators it runs
  against. \<open>NewWalletFilename c n\<close> is the name returned by the \<open>n\<close>-th call of
  \<^verbatim>\<open>NewWalletFilename()\<close> inside one \<^verbatim>\<open>generateUniqueWalletFilename\<close>.
\<close>

record Collab =
  MkdirAll :: "string \<Rightarrow> error option"
  removeBackupFiles :: "string \<Rightarrow> error option"
  LoadWallets :: "string \<Rightarrow> error + Wallets"
  NewWalletFilename :: "nat \<Rightarrow> string"
  NewWalletScanAhead :: "string \<Rightarrow> Options \<Rightarrow> BalanceGetter \<Rightarrow> error + Wallet"
  NewWallet :: "string \<Rightarrow> Options \<Rightarrow> error + Wallet"
  Save :: "Wallet \<Rightarrow> string \<Rightarrow> error option"
  Lock :: "Wallet \<Rightarrow> bytes \<Rightarrow> CryptoType \<Rightarrow> error + Wallet"
  Unlock :: "Wallet \<Rightarrow> bytes \<Rightarrow> error + Wallet"
  GenerateSkycoinAddresses :: "Wallet \<Rightarrow> nat \<Rightarrow> error + Wallet \<times> Address list"
  GetSkycoinAddresses :: "Wallet \<Rightarrow> error + Address list"
  GenerateDeterministicKeyPair :: "bytes \<Rightarrow> error + PubKey \<times> SecKey"
  addressConstructor :: "Wallet \<Rightarrow> PubKey \<Rightarrow> Address"

section \<open>The wallet map\<close>

text \<open>
  Modelled from the spec: the methods of \<^verbatim>\<open>Wallets\<close> (\<^verbatim>\<open>get\<close>, \<^verbatim>\<open>set\<close>, \<^verbatim>\<open>add\<close>,
  \<^verbatim>\<open>remove\<close>) and \<^verbatim>\<open>Wallet.clone\<close> are defined outside \<^verbatim>\<open>service.go\<close>. The spec's
  registry is a mapping from wallet id to wallet in which ids are unique: \<open>get\<close> looks an id
  up, \<open>set\<close> stores a wallet under its own id, \<open>remove\<close> deletes an id, and \<open>add\<close>, which
  \<^verbatim>\<open>loadWallet\<close> shows can fail, refuses an id that is already present and inserts
  otherwise. Wallets are values here, so the deep copy \<open>clone\<close> is the identity.
\<close>

definition clone :: "Wallet \<Rightarrow> Wallet" where
  "clone w = w"

definition wallets_get :: "Wallets \<Rightarrow> string \<Rightarrow> Wallet option" where
  "wallets_get wlts wltID = map_of wlts wltID"

definition wallets_set :: "Wallets \<Rightarrow> Wallet \<Rightarrow> Wallets" where
  "wallets_set wlts w = AList.update (Filename w) (clone w) wlts"

definition wallets_remove :: "Wallets \<Rightarrow> string \<Rightarrow> Wallets" where
  "wallets_remove wlts wltID = AList.delete wltID wlts"

definition wallets_add :: "Wallets \<Rightarrow> Wallet \<Rightarrow> error + Wallets" where
  "wallets_add wlts w =
     (case map_of wlts (Filename w) of
        Some _ \<Rightarrow> Inl ErrWalletNameConflict
      | None \<Rightarrow> Inr (AList.update (Filename w) w wlts))"

definition setLabel :: "Wallet \<Rightarrow> string \<Rightarrow> Wallet" where
  "setLabel w l = w\<lparr>Label := l\<rparr>"

definition setTimestamp :: "Wallet \<Rightarrow> int \<Rightarrow> Wallet" where
  "setTimestamp w t = w\<lparr>timestamp := t\<rparr>"

section \<open>Guarded access\<close>

text \<open>
  Modelled from the spec: \<^verbatim>\<open>Wallet.GuardUpdate\<close> and \<^verbatim>\<open>Wallet.GuardView\<close> are defined
  outside \<^verbatim>\<open>service.go\<close>. By section 4.4 of the spec, \<open>GuardView\<close> decrypts a working
  copy, runs the callback on it and discards the copy whatever the callback returns;
  \<open>GuardUpdate\<close> does the same, and when the callback succeeds re-encrypts the working copy
  with the same password (and the wallet's crypto type), which becomes the wallet.
\<close>

definition GuardUpdate :: "Collab \<Rightarrow> Wallet \<Rightarrow> bytes \<Rightarrow> 'a callback \<Rightarrow> error + Wallet \<times> 'a" where
  "GuardUpdate c w password fn =
     (case Unlock c w password of
        Inl err \<Rightarrow> Inl err
      | Inr wlt \<Rightarrow>
          (case fn wlt of
             Inl err \<Rightarrow> Inl err
           | Inr (wlt', x) \<Rightarrow>
               (case Lock c wlt' password (cryptoType w) of
                  Inl err \<Rightarrow> Inl err
                | Inr w' \<Rightarrow> Inr (w', x))))"

definition GuardView :: "Collab \<Rightarrow> Wallet \<Rightarrow> bytes \<Rightarrow> 'a callback \<Rightarrow> error + 'a" where
  "GuardView c w password fn =
     (case Unlock c w password of
        Inl err \<Rightarrow> Inl err
      | Inr wlt \<Rightarrow>
          (case fn wlt of
             Inl err \<Rightarrow> Inl err
           | Inr (wlt', x) \<Rightarrow> Inr x))"

section \<open>Service operations\<close>

text \<open>\<^verbatim>\<open>getWallet\<close>: the clone of the wallet of the given id.\<close>

definition getWallet :: "Service \<Rightarrow> string \<Rightarrow> error + Wallet" where
  "getWallet serv wltID =
     (case wallets_get (wallets serv) wltID of
        None \<Rightarrow> Inl ErrWalletNotExist
      | Some w \<Rightarrow> Inr (clone w))"


definition EncryptWallet :: "Collab \<Rightarrow> Service \<Rightarrow> string \<Rightarrow> bytes \<Rightarrow> (error + Wallet) \<times> Service" where
  "EncryptWallet c serv wltID password =
     (if \<not> EnableWalletAPI (config serv) then (Inl ErrWalletAPIDisabled, serv)
      else (case getWallet serv wltID of
        Inl err \<Rightarrow> (Inl err, serv)
      | Inr w \<Rightarrow>
          (if IsEncrypted w then (Inl ErrWalletEncrypted, serv)
           else (case Lock c w password (CryptoType (config serv)) of
             Inl err \<Rightarrow> (Inl err, serv)
           | Inr w' \<Rightarrow>
               (case Save c w' (WalletDir (config serv)) of
                  Some err \<Rightarrow> (Inl err, serv)
                | None \<Rightarrow> (Inr w', serv\<lparr>wallets := wallets_set (wallets serv) w'\<rparr>))))))"

definition DecryptWallet :: "Collab \<Rightarrow> Service \<Rightarrow> string \<Rightarrow> bytes \<Rightarrow> (error + Wallet) \<times> Service" where
  "DecryptWallet c serv wltID password =
     (if \<not> EnableWalletAPI (config serv) then (Inl ErrWalletAPIDisabled, serv)
      else (case getWallet serv wltID of
        Inl err \<Rightarrow> (Inl err, serv)
      | Inr w \<Rightarrow>
          (if \<not> IsEncrypted w then (Inl ErrWalletNotEncrypted, serv)
           else (case Unlock c w password of
             Inl err \<Rightarrow> (Inl err, serv)
           | Inr unlockWlt \<Rightarrow>
               (case Save c unlockWlt (WalletDir (config serv)) of
                  Some err \<Rightarrow> (Inl err, serv)
                | None \<Rightarrow>
                    (Inr unlockWlt, serv\<lparr>wallets := wallets_set (wallets serv) unlockWlt\<rparr>))))))"

text \<open>
  \<^verbatim>\<open>generateUniqueWalletFilename\<close> draws names until one is not an id of the map. The
  loop has no bound, so it is a partial function: \<open>None\<close> is the loop that never ends.
\<close>

partial_function (option) uniqueFilenameFrom :: "(nat \<Rightarrow> string) \<Rightarrow> Wallets \<Rightarrow> nat \<Rightarrow> string option" where
  "uniqueFilenameFrom names wlts n =
     (if wallets_get wlts (names n) = None then Some (names n)
      else uniqueFilenameFrom names wlts (Suc n))"

definition generateUniqueWalletFilename :: "Collab \<Rightarrow> Service \<Rightarrow> string option" where
  "generateUniqueWalletFilename c serv = uniqueFilenameFrom (NewWalletFilename c) (wallets serv) 0"

text \<open>
  \<^verbatim>\<open>loadWallet\<close>: the service decides the crypto type of an encrypted wallet; a first
  address already in the index is a used seed; the wallet is added, saved, and removed
  again when the save fails; the index is written last.
\<close>

definition loadWallet ::
    "Collab \<Rightarrow> Service \<Rightarrow> string \<Rightarrow> Options \<Rightarrow> BalanceGetter \<Rightarrow> (error + Wallet) \<times> Service" where
  "loadWallet c serv wltName options bg =
     (let options' = (if optEncrypt options
                      then options\<lparr>optCryptoType := CryptoType (config serv)\<rparr> else options)
      in case NewWalletScanAhead c wltName options' bg of
        Inl err \<Rightarrow> (Inl err, serv)
      | Inr w \<Rightarrow>
          (case Entries w of
             [] \<Rightarrow> (Inl PanicIndexOutOfRange, serv)
           | e # _ \<Rightarrow>
               (case firstAddrIDMap serv (Address e) of
                  Some _ \<Rightarrow> (Inl ErrSeedUsed, serv)
                | None \<Rightarrow>
                    (case wallets_add (wallets serv) w of
                       Inl err \<Rightarrow> (Inl err, serv)
                     | Inr wlts \<Rightarrow>
                         (case Save c w (WalletDir (config serv)) of
                            Some err \<Rightarrow>
                              (Inl err, serv\<lparr>wallets := wallets_remove wlts (Filename w)\<rparr>)
                          | None \<Rightarrow>
                              (Inr (clone w),
                               serv\<lparr>wallets := wlts,
                                    firstAddrIDMap :=
                                      (firstAddrIDMap serv)(Address e \<mapsto> Filename w)\<rparr>))))))"

text \<open>\<open>None\<close> is a call that never returns (the name loop does not end).\<close>

definition CreateWallet ::
    "Collab \<Rightarrow> Service \<Rightarrow> string \<Rightarrow> Options \<Rightarrow> BalanceGetter \<Rightarrow> ((error + Wallet) \<times> Service) option" where
  "CreateWallet c serv wltName options bg =
     (if \<not> EnableWalletAPI (config serv) then Some (Inl ErrWalletAPIDisabled, serv)
      else if wltName = [] then
        (case generateUniqueWalletFilename c serv of
           None \<Rightarrow> None
         | Some wltName' \<Rightarrow> Some (loadWallet c serv wltName' options bg))
      else Some (loadWallet c serv wltName options bg))"

text \<open>
  \<^verbatim>\<open>NewAddresses\<close>: the closure \<^verbatim>\<open>f\<close> is \<^verbatim>\<open>GenerateSkycoinAddresses(num)\<close> with the
  new addresses captured. The service does no arithmetic on \<^verbatim>\<open>num\<close> (a \<^verbatim>\<open>uint64\<close>); it
  only hands it on, so it is a natural number here.
\<close>

definition NewAddresses ::
    "Collab \<Rightarrow> Service \<Rightarrow> string \<Rightarrow> bytes \<Rightarrow> nat \<Rightarrow> (error + Address list) \<times> Service" where
  "NewAddresses c serv wltID password num =
     (if \<not> EnableWalletAPI (config serv) then (Inl ErrWalletAPIDisabled, serv)
      else (case getWallet serv wltID of
        Inl err \<Rightarrow> (Inl err, serv)
      | Inr w \<Rightarrow>
          (let f = (\<lambda>wlt. GenerateSkycoinAddresses c wlt num) in
           case (if IsEncrypted w then GuardUpdate c w password f
                 else if length password \<noteq> 0 then Inl ErrWalletNotEncrypted
                 else f w) of
             Inl err \<Rightarrow> (Inl err, serv)
           | Inr (w', addrs) \<Rightarrow>
               (case Save c w' (WalletDir (config serv)) of
                  Some err \<Rightarrow> (Inl err, serv)
                | None \<Rightarrow> (Inr addrs, serv\<lparr>wallets := wallets_set (wallets serv) w'\<rparr>)))))"

definition GetSkycoinAddressesOf :: "Collab \<Rightarrow> Service \<Rightarrow> string \<Rightarrow> error + Address list" where
  "GetSkycoinAddressesOf c serv wltID =
     (if \<not> EnableWalletAPI (config serv) then Inl ErrWalletAPIDisabled
      else (case getWallet serv wltID of
        Inl err \<Rightarrow> Inl err
      | Inr w \<Rightarrow> GetSkycoinAddresses c w))"

definition GetWallets :: "Service \<Rightarrow> error + Wallets" where
  "GetWallets serv =
     (if \<not> EnableWalletAPI (config serv) then Inl ErrWalletAPIDisabled
      else Inr (map (\<lambda>(k, w). (k, clone w)) (wallets serv)))"

definition UpdateWalletLabel :: "Collab \<Rightarrow> Service \<Rightarrow> string \<Rightarrow> string \<Rightarrow> error option \<times> Service" where
  "UpdateWalletLabel c serv wltID label =
     (if \<not> EnableWalletAPI (config serv) then (Some ErrWalletAPIDisabled, serv)
      else (case getWallet serv wltID of
        Inl err \<Rightarrow> (Some err, serv)
      | Inr w \<Rightarrow>
          (let w' = setLabel w label in
           case Save c w' (WalletDir (config serv)) of
             Some err \<Rightarrow> (Some err, serv)
           | None \<Rightarrow> (None, serv\<lparr>wallets := wallets_set (wallets serv) w'\<rparr>))))"

text \<open>
  \<^verbatim>\<open>UnloadWallet\<close>: the index entry of the wallet's first address is deleted when the
  wallet exists and has an entry; the wallet is removed; the result is always nil once the
  API is enabled.
\<close>

definition UnloadWallet :: "Service \<Rightarrow> string \<Rightarrow> error option \<times> Service" where
  "UnloadWallet serv wltID =
     (if \<not> EnableWalletAPI (config serv) then (Some ErrWalletAPIDisabled, serv)
      else
        (let idx = (case wallets_get (wallets serv) wltID of
                      None \<Rightarrow> firstAddrIDMap serv
                    | Some wlt \<Rightarrow>
                        (case Entries wlt of
                           [] \<Rightarrow> firstAddrIDMap serv
                         | e # _ \<Rightarrow> (firstAddrIDMap serv)(Address e := None)))
         in (None, serv\<lparr>wallets := wallets_remove (wallets serv) wltID,
                         firstAddrIDMap := idx\<rparr>)))"

text \<open>
  \<^verbatim>\<open>setWallets\<close> replaces the wallet map and writes, for every wallet it ranges over, the
  first address into the index; \<^verbatim>\<open>wlt.Entries[0]\<close> panics on a wallet with no entry.
\<close>

fun setWalletsIndex :: "Wallets \<Rightarrow> (string \<rightharpoonup> string) \<Rightarrow> error + (string \<rightharpoonup> string)" where
  "setWalletsIndex [] idx = Inr idx"
| "setWalletsIndex ((wltID, wlt) # rest) idx =
     (case Entries wlt of
        [] \<Rightarrow> Inl PanicIndexOutOfRange
      | e # _ \<Rightarrow> setWalletsIndex rest (idx(Address e \<mapsto> wltID)))"

definition setWallets :: "Service \<Rightarrow> Wallets \<Rightarrow> error + Service" where
  "setWallets serv wlts =
     (case setWalletsIndex wlts (firstAddrIDMap serv) of
        Inl err \<Rightarrow> Inl err
      | Inr idx \<Rightarrow> Inr (serv\<lparr>wallets := wlts, firstAddrIDMap := idx\<rparr>))"

text \<open>
  Modelled from the spec: \<^verbatim>\<open>Wallets.containsDuplicate\<close> and \<^verbatim>\<open>Wallets.containsEmpty\<close>
  are defined outside \<^verbatim>\<open>service.go\<close>. By section 4.1 of the spec, initialization is
  rejected when the candidate set holds two wallets with the same first address, or a wallet
  with zero entries. A wallet with no entry has no first address, so the duplicate scan
  passes over it; the scan reports the wallet at which an address already seen comes back.
\<close>

fun containsDuplicateFrom :: "Address list \<Rightarrow> Wallets \<Rightarrow> (string \<times> Address) option" where
  "containsDuplicateFrom seen [] = None"
| "containsDuplicateFrom seen ((wltID, wlt) # rest) =
     (case Entries wlt of
        [] \<Rightarrow> containsDuplicateFrom seen rest
      | e # _ \<Rightarrow>
          (if Address e \<in> set seen then Some (wltID, Address e)
           else containsDuplicateFrom (Address e # seen) rest))"

definition containsDuplicate :: "Wallets \<Rightarrow> (string \<times> Address) option" where
  "containsDuplicate wlts = containsDuplicateFrom [] wlts"

fun containsEmpty :: "Wallets \<Rightarrow> string option" where
  "containsEmpty [] = None"
| "containsEmpty ((wltID, wlt) # rest) =
     (if Entries wlt = [] then Some wltID else containsEmpty rest)"

definition NewService :: "Collab \<Rightarrow> Config \<Rightarrow> error + Service" where
  "NewService c cfg =
     (let serv = \<lparr>wallets = [], config = cfg, firstAddrIDMap = Map.empty\<rparr> in
      if \<not> EnableWalletAPI cfg then Inr serv
      else (case MkdirAll c (WalletDir cfg) of
        Some err \<Rightarrow> Inl (ErrCreateWalletDir err)
      | None \<Rightarrow>
          (case removeBackupFiles c (WalletDir cfg) of
             Some err \<Rightarrow> Inl (ErrRemoveBackupFiles err)
           | None \<Rightarrow>
               (case LoadWallets c (WalletDir cfg) of
                  Inl err \<Rightarrow> Inl (ErrLoadWallets err)
                | Inr w \<Rightarrow>
                    (case containsDuplicate w of
                       Some (wltID, addr) \<Rightarrow> Inl (ErrDuplicateWallet addr wltID)
                     | None \<Rightarrow>
                         (case containsEmpty w of
                            Some wltID \<Rightarrow> Inl (ErrEmptyWallet wltID)
                          | None \<Rightarrow> setWallets serv w))))))"

definition GetWalletSeed :: "Collab \<Rightarrow> Service \<Rightarrow> string \<Rightarrow> bytes \<Rightarrow> error + string" where
  "GetWalletSeed c serv wltID password =
     (if \<not> EnableWalletAPI (config serv) then Inl ErrWalletAPIDisabled
      else if \<not> EnableSeedAPI (config serv) then Inl ErrSeedAPIDisabled
      else (case getWallet serv wltID of
        Inl err \<Rightarrow> Inl err
      | Inr w \<Rightarrow>
          (if \<not> IsEncrypted w then Inl ErrWalletNotEncrypted
           else GuardView c w password (\<lambda>wlt. Inr (wlt, seed wlt)))))"

definition UpdateSecrets ::
    "Collab \<Rightarrow> Service \<Rightarrow> string \<Rightarrow> bytes \<Rightarrow> 'a callback \<Rightarrow> (error + 'a) \<times> Service" where
  "UpdateSecrets c serv wltID password f =
     (if \<not> EnableWalletAPI (config serv) then (Inl ErrWalletAPIDisabled, serv)
      else (case getWallet serv wltID of
        Inl err \<Rightarrow> (Inl err, serv)
      | Inr w \<Rightarrow>
          (case (if IsEncrypted w then GuardUpdate c w password f
                 else if length password \<noteq> 0 then Inl ErrWalletNotEncrypted
                 else f w) of
             Inl err \<Rightarrow> (Inl err, serv)
           | Inr (w', x) \<Rightarrow>
               (case Save c w' (WalletDir (config serv)) of
                  Some err \<Rightarrow> (Inl err, serv)
                | None \<Rightarrow> (Inr x, serv\<lparr>wallets := wallets_set (wallets serv) w'\<rparr>)))))"

definition Update :: "Collab \<Rightarrow> Service \<Rightarrow> string \<Rightarrow> 'a callback \<Rightarrow> (error + 'a) \<times> Service" where
  "Update c serv wltID f =
     (if \<not> EnableWalletAPI (config serv) then (Inl ErrWalletAPIDisabled, serv)
      else (case getWallet serv wltID of
        Inl err \<Rightarrow> (Inl err, serv)
      | Inr w \<Rightarrow>
          (case f w of
             Inl err \<Rightarrow> (Inl err, serv)
           | Inr (w', x) \<Rightarrow>
               (case Save c w' (WalletDir (config serv)) of
                  Some err \<Rightarrow> (Inl err, serv)
                | None \<Rightarrow> (Inr x, serv\<lparr>wallets := wallets_set (wallets serv) w'\<rparr>)))))"

text \<open>
  \<^verbatim>\<open>ViewSecrets\<close> and \<^verbatim>\<open>View\<close> hold the read lock and never write the service: what the
  callback does to its clone is dropped.
\<close>

definition ViewSecrets :: "Collab \<Rightarrow> Service \<Rightarrow> string \<Rightarrow> bytes \<Rightarrow> 'a callback \<Rightarrow> error + 'a" where
  "ViewSecrets c serv wltID password f =
     (if \<not> EnableWalletAPI (config serv) then Inl ErrWalletAPIDisabled
      else (case getWallet serv wltID of
        Inl err \<Rightarrow> Inl err
      | Inr w \<Rightarrow>
          (if IsEncrypted w then GuardView c w password f
           else if length password \<noteq> 0 then Inl ErrWalletNotEncrypted
           else (case f w of Inl err \<Rightarrow> Inl err | Inr (w', x) \<Rightarrow> Inr x))))"

definition View :: "Service \<Rightarrow> string \<Rightarrow> 'a callback \<Rightarrow> error + 'a" where
  "View serv wltID f =
     (if \<not> EnableWalletAPI (config serv) then Inl ErrWalletAPIDisabled
      else (case getWallet serv wltID of
        Inl err \<Rightarrow> Inl err
      | Inr w \<Rightarrow> (case f w of Inl err \<Rightarrow> Inl err | Inr (w', x) \<Rightarrow> Inr x)))"

text \<open>
  \<^verbatim>\<open>RecoverWallet\<close>: the wallet must exist, be encrypted and deterministic; the first
  address derived from the seed must be the wallet's first address; a new wallet is built
  from the seed with the old wallet's coin, label, crypto type and number of entries,
  encrypted when a password is given; it takes the old timestamp, is saved and then set.
\<close>

definition recoverOptions :: "Wallet \<Rightarrow> string \<Rightarrow> bytes \<Rightarrow> Options" where
  "recoverOptions w sd password =
     \<lparr>optCoin = coin w, optLabel = Label w, optSeed = sd,
      optEncrypt = (length password \<noteq> 0), optPassword = password,
      optCryptoType = cryptoType w, optGenerateN = length (Entries w)\<rparr>"

definition RecoverWallet ::
    "Collab \<Rightarrow> Service \<Rightarrow> string \<Rightarrow> string \<Rightarrow> bytes \<Rightarrow> (error + Wallet) \<times> Service" where
  "RecoverWallet c serv wltName sd password =
     (if \<not> EnableWalletAPI (config serv) then (Inl ErrWalletAPIDisabled, serv)
      else (case getWallet serv wltName of
        Inl err \<Rightarrow> (Inl err, serv)
      | Inr w \<Rightarrow>
          (if \<not> IsEncrypted w then (Inl ErrWalletNotEncrypted, serv)
           else if Type w \<noteq> WalletTypeDeterministic then (Inl ErrWalletNotDeterministic, serv)
           else (case GenerateDeterministicKeyPair c sd of
             Inl err \<Rightarrow> (Inl err, serv)
           | Inr (pk, sk) \<Rightarrow>
               (let addr = addressConstructor c w pk in
                case Entries w of
                  [] \<Rightarrow> (Inl PanicIndexOutOfRange, serv)
                | e # _ \<Rightarrow>
                    (if addr \<noteq> Address e then (Inl ErrWalletRecoverSeedWrong, serv)
                     else (case NewWallet c wltName (recoverOptions w sd password) of
                       Inl err \<Rightarrow> (Inl err, serv)
                     | Inr w2 \<Rightarrow>
                         (let w2' = setTimestamp w2 (timestamp w) in
                          case Save c w2' (WalletDir (config serv)) of
                            Some err \<Rightarrow> (Inl err, serv)
                          | None \<Rightarrow>
                              (Inr (clone w2'),
                               serv\<lparr>wallets := wallets_set (wallets serv) w2'\<rparr>)))))))))"

section \<open>The registry invariant\<close>

text \<open>
  The first address of a wallet is the address of its first entry; a wallet with no entry
  has none. \<open>indexExact\<close> is the invariant of the spec's data model: every wallet of the
  map has a first address that the index sends to the wallet's id, and every entry of the
  index comes from such a wallet. \<open>idsConsistent\<close> says that each wallet is stored under
  its own \<^verbatim>\<open>Filename()\<close>, which \<^verbatim>\<open>set\<close> and \<^verbatim>\<open>loadWallet\<close> use as the id.
\<close>

definition firstAddress :: "Wallet \<Rightarrow> Address option" where
  "firstAddress w = (case Entries w of [] \<Rightarrow> None | e # _ \<Rightarrow> Some (Address e))"

definition indexExact :: "Service \<Rightarrow> bool" where
  "indexExact serv \<longleftrightarrow>
     (\<forall>wltID w. wallets_get (wallets serv) wltID = Some w \<longrightarrow>
        (\<exists>a. firstAddress w = Some a \<and> firstAddrIDMap serv a = Some wltID)) \<and>
     (\<forall>a wltID. firstAddrIDMap serv a = Some wltID \<longrightarrow>
        (\<exists>w. wallets_get (wallets serv) wltID = Some w \<and> firstAddress w = Some a))"

definition idsConsistent :: "Service \<Rightarrow> bool" where
  "idsConsistent serv \<longleftrightarrow>
     (\<forall>wltID w. wallets_get (wallets serv) wltID = Some w \<longrightarrow> Filename w = wltID)"

text \<open>
  \<open>regOk\<close> is the invariant the operations keep: ids consistent and index exact.
  \<open>firstAddresses\<close> lists the first addresses of the wallets that have one, in the order
  of the list.
\<close>

definition regOk :: "Service \<Rightarrow> bool" where
  "regOk serv \<longleftrightarrow> idsConsistent serv \<and> indexExact serv"

definition firstAddresses :: "Wallets \<Rightarrow> Address list" where
  "firstAddresses wlts =
     concat (map (\<lambda>(k, w). case Entries w of [] \<Rightarrow> [] | e # _ \<Rightarrow> [Address e]) wlts)"

section \<open>Contracts of the collaborators\<close>

text \<open>
  Modelled from the spec: what the claims need of the collaborators, which are defined
  outside \<^verbatim>\<open>service.go\<close>. A wallet's id and first address are fixed by its file and its
  seed (sections 3 and 4.6 of the spec): locking, unlocking and generating addresses keep
  both; \<^verbatim>\<open>NewWallet\<close> names the wallet as asked and derives its first address from the
  seed as \<^verbatim>\<open>GenerateDeterministicKeyPair\<close> and the address constructor of the coin do;
  \<^verbatim>\<open>LoadWallets\<close> returns a Go map (no id twice) with each wallet under its own file
  name.
\<close>

definition keepsIdentity :: "Wallet \<Rightarrow> Wallet \<Rightarrow> bool" where
  "keepsIdentity w w' \<longleftrightarrow>
     Filename w' = Filename w \<and> (firstAddress w \<noteq> None \<longrightarrow> firstAddress w' = firstAddress w)"

text \<open>
  \<open>setStep serv k serv'\<close>: the state \<open>serv'\<close> is \<open>serv\<close>, or \<open>serv\<close> after \<^verbatim>\<open>wallets.set\<close> of a
  wallet that keeps the identity of the wallet stored under \<open>k\<close>.
\<close>

definition setStep :: "Service \<Rightarrow> string \<Rightarrow> Service \<Rightarrow> bool" where
  "setStep serv k serv' \<longleftrightarrow>
     serv' = serv \<or>
     (\<exists>w w'. wallets_get (wallets serv) k = Some w \<and> keepsIdentity w w' \<and>
              serv' = serv\<lparr>wallets := wallets_set (wallets serv) w'\<rparr>)"

definition collabKeepsIdentity :: "Collab \<Rightarrow> bool" where
  "collabKeepsIdentity c \<longleftrightarrow>
     (\<forall>w pw ct w'. Lock c w pw ct = Inr w' \<longrightarrow> keepsIdentity w w') \<and>
     (\<forall>w pw w'. Unlock c w pw = Inr w' \<longrightarrow> keepsIdentity w w') \<and>
     (\<forall>w n w' addrs. GenerateSkycoinAddresses c w n = Inr (w', addrs) \<longrightarrow> keepsIdentity w w') \<and>
     (\<forall>name opts w2. NewWallet c name opts = Inr w2 \<longrightarrow> Filename w2 = name) \<and>
     (\<forall>name opts w2 pk sk w.
        NewWallet c name opts = Inr w2 \<longrightarrow>
        GenerateDeterministicKeyPair c (optSeed opts) = Inr (pk, sk) \<longrightarrow>
        coin w = optCoin opts \<longrightarrow>
        firstAddress w2 = Some (addressConstructor c w pk)) \<and>
     (\<forall>dir wlts. LoadWallets c dir = Inr wlts \<longrightarrow>
        distinct (map fst wlts) \<and> (\<forall>(k, w) \<in> set wlts. Filename w = k))"



section \<open>Reachable registry states\<close>

text \<open>
  A callback keeps the identity of a wallet when the wallet it leaves has the same id and
  first address. \<open>reachable P\<close> are the states a successfully initialized service gets to by
  the operations that write the service, with callbacks that satisfy \<open>P\<close>; the
  collaborators may differ from call to call and keep the identity of wallets.
\<close>

definition callbackKeepsIdentity :: "'a callback \<Rightarrow> bool" where
  "callbackKeepsIdentity f \<longleftrightarrow> (\<forall>w w' x. f w = Inr (w', x) \<longrightarrow> keepsIdentity w w')"

definition anyCallback :: "'a callback \<Rightarrow> bool" where
  "anyCallback f \<longleftrightarrow> True"

inductive reachable :: "('a callback \<Rightarrow> bool) \<Rightarrow> Service \<Rightarrow> bool" for P where
  init: "collabKeepsIdentity c \<Longrightarrow> NewService c cfg = Inr serv \<Longrightarrow> reachable P serv"
| create: "reachable P serv \<Longrightarrow> collabKeepsIdentity c \<Longrightarrow>
     CreateWallet c serv wltName options bg = Some (r1, serv') \<Longrightarrow> reachable P serv'"
| encrypt: "reachable P serv \<Longrightarrow> collabKeepsIdentity c \<Longrightarrow>
     EncryptWallet c serv wltID password = (r1, serv') \<Longrightarrow> reachable P serv'"
| decrypt: "reachable P serv \<Longrightarrow> collabKeepsIdentity c \<Longrightarrow>
     DecryptWallet c serv wltID password = (r1, serv') \<Longrightarrow> reachable P serv'"
| newAddresses: "reachable P serv \<Longrightarrow> collabKeepsIdentity c \<Longrightarrow>
     NewAddresses c serv wltID password num = (r2, serv') \<Longrightarrow> reachable P serv'"
| updateLabel: "reachable P serv \<Longrightarrow> collabKeepsIdentity c \<Longrightarrow>
     UpdateWalletLabel c serv wltID label = (r3, serv') \<Longrightarrow> reachable P serv'"
| unload: "reachable P serv \<Longrightarrow>
     UnloadWallet serv wltID = (r3, serv') \<Longrightarrow> reachable P serv'"
| updateSecrets: "reachable P serv \<Longrightarrow> collabKeepsIdentity c \<Longrightarrow> P f \<Longrightarrow>
     UpdateSecrets c serv wltID password f = (r4, serv') \<Longrightarrow> reachable P serv'"
| update: "reachable P serv \<Longrightarrow> collabKeepsIdentity c \<Longrightarrow> P f \<Longrightarrow>
     Update c serv wltID f = (r4, serv') \<Longrightarrow> reachable P serv'"
| recover: "reachable P serv \<Longrightarrow> collabKeepsIdentity c \<Longrightarrow>
     RecoverWallet c serv wltName sd password = (r1, serv') \<Longrightarrow> reachable P serv'"

section \<open>Reference collaborators and example states\<close>

text \<open>
  Modelled from the spec: a small deterministic instance of the collaborators, used to run
  the operations on concrete inputs. Entry \<open>i\<close> of a seed is derived from the seed and
  \<open>i\<close>; locking moves the seed and the secret keys into the envelope under the password,
  records the scheme as the crypto type, and unlocking with that password restores them; a
  wallet is constructed unencrypted with no crypto type and locked when the options ask for
  encryption; a save fails on the directory \<open>/full\<close> and succeeds elsewhere; the wallet
  directory is empty at start.
\<close>

definition deriveEntry :: "string \<Rightarrow> nat \<Rightarrow> Entry" where
  "deriveEntry sd i =
     \<lparr>Address = ''addr-'' @ sd @ replicate i (CHR ''+''),
      Public = ''pub-'' @ sd @ replicate i (CHR ''+''),
      Secret = ''sec-'' @ sd @ replicate i (CHR ''+'')\<rparr>"

fun restoreKeys :: "Entry list \<Rightarrow> SecKey list \<Rightarrow> Entry list" where
  "restoreKeys [] ks = []"
| "restoreKeys (e # es) [] = e # es"
| "restoreKeys (e # es) (k # ks) = e\<lparr>Secret := k\<rparr> # restoreKeys es ks"

definition refLock :: "Wallet \<Rightarrow> bytes \<Rightarrow> CryptoType \<Rightarrow> error + Wallet" where
  "refLock w password ct =
     (if password = [] then Inl (ErrExternal ''missing password'')
      else if IsEncrypted w then Inl ErrWalletEncrypted
      else Inr (w\<lparr>cryptoType := ct, IsEncrypted := True,
                  Entries := map (\<lambda>e. e\<lparr>Secret := []\<rparr>) (Entries w), seed := [],
                  secrets := Some (password, seed w, map Secret (Entries w))\<rparr>))"

definition refUnlock :: "Wallet \<Rightarrow> bytes \<Rightarrow> error + Wallet" where
  "refUnlock w password =
     (if \<not> IsEncrypted w then Inl ErrWalletNotEncrypted
      else (case secrets w of
        None \<Rightarrow> Inl (ErrExternal ''invalid secrets'')
      | Some (pw, sd, ks) \<Rightarrow>
          (if pw \<noteq> password then Inl (ErrExternal ''invalid password'')
           else Inr (w\<lparr>IsEncrypted := False, Entries := restoreKeys (Entries w) ks,
                       seed := sd, secrets := None\<rparr>))))"

definition refNewWallet :: "string \<Rightarrow> Options \<Rightarrow> error + Wallet" where
  "refNewWallet name opts =
     (if optSeed opts = [] then Inl (ErrExternal ''missing seed'')
      else
        (let w = \<lparr>Filename = name, Label = optLabel opts, coin = optCoin opts,
                  cryptoType = [], Type = WalletTypeDeterministic,
                  IsEncrypted = False,
                  Entries = map (deriveEntry (optSeed opts)) [0..<max 1 (optGenerateN opts)],
                  timestamp = 0, seed = optSeed opts, secrets = None\<rparr>
         in if optEncrypt opts then refLock w (optPassword opts) (optCryptoType opts)
            else Inr w))"

definition refGenerateSkycoinAddresses :: "Wallet \<Rightarrow> nat \<Rightarrow> error + Wallet \<times> Address list" where
  "refGenerateSkycoinAddresses w num =
     (if IsEncrypted w then Inl ErrWalletEncrypted
      else
        (let new = map (deriveEntry (seed w)) [length (Entries w)..<length (Entries w) + num]
         in Inr (w\<lparr>Entries := Entries w @ new\<rparr>, map Address new)))"

definition refCollab :: Collab where
  "refCollab =
     \<lparr>MkdirAll = (\<lambda>dir. None),
      removeBackupFiles = (\<lambda>dir. None),
      LoadWallets = (\<lambda>dir. Inr []),
      NewWalletFilename = (\<lambda>n. ''wallet-'' @ replicate n (CHR ''+'') @ ''.wlt''),
      NewWalletScanAhead = (\<lambda>name opts bg. refNewWallet name opts),
      NewWallet = refNewWallet,
      Save = (\<lambda>w dir. if dir = ''/full'' then Some (ErrExternal ''disk full'') else None),
      Lock = refLock,
      Unlock = refUnlock,
      GenerateSkycoinAddresses = refGenerateSkycoinAddresses,
      GetSkycoinAddresses = (\<lambda>w. Inr (map Address (Entries w))),
      GenerateDeterministicKeyPair =
        (\<lambda>sd. if sd = [] then Inl (ErrExternal ''missing seed'')
              else Inr (Public (deriveEntry sd 0), Secret (deriveEntry sd 0))),
      addressConstructor = (\<lambda>w pk. ''addr-'' @ drop 4 pk)\<rparr>"

text \<open>
  Example states: a service over the directory \<open>dir\<close> holding the unencrypted wallet
  \<open>plain.wlt\<close> (seed \<open>s1\<close>) and the encrypted wallet \<open>sealed.wlt\<close> (seed \<open>s2\<close>, password
  \<open>pw\<close>), each with one entry.
\<close>

definition exConfig :: "string \<Rightarrow> Config" where
  "exConfig dir =
     \<lparr>WalletDir = dir, CryptoType = ''scrypt-chacha20poly1305'',
      EnableWalletAPI = True, EnableSeedAPI = True\<rparr>"

definition exPlain :: Wallet where
  "exPlain =
     \<lparr>Filename = ''plain.wlt'', Label = ''plain'', coin = ''skycoin'', cryptoType = [],
      Type = WalletTypeDeterministic, IsEncrypted = False,
      Entries = [\<lparr>Address = ''addr-s1'', Public = ''pub-s1'', Secret = ''sec-s1''\<rparr>],
      timestamp = 100, seed = ''s1'', secrets = None\<rparr>"

definition exSealed :: Wallet where
  "exSealed =
     \<lparr>Filename = ''sealed.wlt'', Label = ''sealed'', coin = ''skycoin'',
      cryptoType = ''scrypt-chacha20poly1305'',
      Type = WalletTypeDeterministic, IsEncrypted = True,
      Entries = [\<lparr>Address = ''addr-s2'', Public = ''pub-s2'', Secret = []\<rparr>],
      timestamp = 200, seed = [], secrets = Some (''pw'', ''s2'', [''sec-s2''])\<rparr>"

definition exService :: "string \<Rightarrow> Service" where
  "exService dir =
     \<lparr>wallets = [(''plain.wlt'', exPlain), (''sealed.wlt'', exSealed)],
      config = exConfig dir,
      firstAddrIDMap = [''addr-s1'' \<mapsto> ''plain.wlt'', ''addr-s2'' \<mapsto> ''sealed.wlt'']\<rparr>"

definition exOptions :: "string \<Rightarrow> Options" where
  "exOptions sd =
     \<lparr>optCoin = ''skycoin'', optLabel = ''new'', optSeed = sd, optEncrypt = False,
      optPassword = [], optCryptoType = [], optGenerateN = 1\<rparr>"

definition noBalances :: BalanceGetter where
  "noBalances addrs = Inr []"

text \<open>Two callbacks: one renames the label, the other replaces the entries of the wallet.\<close>

definition relabel :: "unit callback" where
  "relabel w = Inr (w\<lparr>Label := ''renamed''\<rparr>, ())"

definition replaceEntries :: "unit callback" where
  "replaceEntries w = Inr (w\<lparr>Entries := [deriveEntry ''other'' 0]\<rparr>, ())"

text \<open>
  \<open>exCreated name sd\<close> is the wallet the reference construction returns for the options
  \<open>exOptions sd\<close>; \<open>exRecovered\<close> is the wallet recovered from \<open>sealed.wlt\<close> with seed \<open>s2\<close>
  and the new password \<open>pw2\<close>.
\<close>

definition exCreated :: "string \<Rightarrow> string \<Rightarrow> Wallet" where
  "exCreated name sd =
     \<lparr>Filename = name, Label = ''new'', coin = ''skycoin'', cryptoType = [],
      Type = WalletTypeDeterministic, IsEncrypted = False,
      Entries = [\<lparr>Address = ''addr-'' @ sd, Public = ''pub-'' @ sd, Secret = ''sec-'' @ sd\<rparr>],
      timestamp = 0, seed = sd, secrets = None\<rparr>"

definition exRecovered :: Wallet where
  "exRecovered =
     \<lparr>Filename = ''sealed.wlt'', Label = ''sealed'', coin = ''skycoin'',
      cryptoType = ''scrypt-chacha20poly1305'',
      Type = WalletTypeDeterministic, IsEncrypted = True,
      Entries = [\<lparr>Address = ''addr-s2'', Public = ''pub-s2'', Secret = []\<rparr>],
      timestamp = 200, seed = [], secrets = Some (''pw2'', ''s2'', [''sec-s2''])\<rparr>"


text \<open>
  States of a run from an empty wallet directory: \<open>exEmpty\<close> after \<^verbatim>\<open>NewService\<close>,
  \<open>exOne\<close> after creating \<open>plain.wlt\<close> from the seed \<open>s1\<close>, then \<open>exRelabelled\<close> after
  \<^verbatim>\<open>Update\<close> with the callback \<open>relabel\<close>, or \<open>exBroken\<close> after \<^verbatim>\<open>Update\<close> with the
  callback \<open>replaceEntries\<close>.
\<close>

definition exEmpty :: Service where
  "exEmpty = \<lparr>wallets = [], config = exConfig ''/tmp'', firstAddrIDMap = Map.empty\<rparr>"

definition exOne :: Service where
  "exOne =
     \<lparr>wallets = [(''plain.wlt'', exCreated ''plain.wlt'' ''s1'')],
      config = exConfig ''/tmp'',
      firstAddrIDMap = [''addr-s1'' \<mapsto> ''plain.wlt'']\<rparr>"

definition exRelabelled :: Service where
  "exRelabelled =
     exOne\<lparr>wallets := [(''plain.wlt'', (exCreated ''plain.wlt'' ''s1'')\<lparr>Label := ''renamed''\<rparr>)]\<rparr>"

definition exBroken :: Service where
  "exBroken =
     exOne\<lparr>wallets := [(''plain.wlt'',
        (exCreated ''plain.wlt'' ''s1'')\<lparr>Entries := [deriveEntry ''other'' 0]\<rparr>)]\<rparr>"

text \<open>\<open>exDup\<close> is \<open>exBroken\<close> after creating \<open>dup.wlt\<close> from the seed \<open>other\<close>.\<close>

definition exDup :: Service where
  "exDup =
     \<lparr>wallets = [(''plain.wlt'',
          (exCreated ''plain.wlt'' ''s1'')\<lparr>Entries := [deriveEntry ''other'' 0]\<rparr>),
        (''dup.wlt'', exCreated ''dup.wlt'' ''other'')],
      config = exConfig ''/tmp'',
      firstAddrIDMap = [''addr-s1'' \<mapsto> ''plain.wlt'', ''addr-other'' \<mapsto> ''dup.wlt'']\<rparr>"

section \<open>Properties of single operations\<close>

lemma getWallet_Some: "wallets_get (wallets serv) wltID = Some w \<Longrightarrow> getWallet serv wltID = Inr w"
  by (simp add: getWallet_def clone_def)

lemma getWallet_None: "wallets_get (wallets serv) wltID = None \<Longrightarrow> getWallet serv wltID = Inl ErrWalletNotExist"
  by (simp add: getWallet_def)

text \<open>
  Claim C7. With the wallet API enabled (the gate every operation checks first),
  \<^verbatim>\<open>EncryptWallet\<close> fails with \<open>ErrWalletNotExist\<close> when the id is not in the registry and
  with \<open>ErrWalletEncrypted\<close> when the wallet is already encrypted, \<^verbatim>\<open>DecryptWallet\<close> fails
  with \<open>ErrWalletNotEncrypted\<close> when the wallet is not encrypted, and in each case the
  service state returned is the state before the call.
\<close>

theorem C7_encrypt_decrypt_preconditions:
  assumes "EnableWalletAPI (config serv)"
  shows "(wallets_get (wallets serv) wltID = None \<longrightarrow>
            EncryptWallet c serv wltID password = (Inl ErrWalletNotExist, serv)) \<and>
         (\<forall>w. wallets_get (wallets serv) wltID = Some w \<and> IsEncrypted w \<longrightarrow>
            EncryptWallet c serv wltID password = (Inl ErrWalletEncrypted, serv)) \<and>
         (\<forall>w. wallets_get (wallets serv) wltID = Some w \<and> \<not> IsEncrypted w \<longrightarrow>
            DecryptWallet c serv wltID password = (Inl ErrWalletNotEncrypted, serv))"
  using assms
  by (simp add: EncryptWallet_def DecryptWallet_def getWallet_Some getWallet_None)

lemma exService_get [simp]:
  "wallets_get (wallets (exService dir)) ''plain.wlt'' = Some exPlain"
  "wallets_get (wallets (exService dir)) ''sealed.wlt'' = Some exSealed"
  "wallets_get (wallets (exService dir)) ''missing.wlt'' = None"
  by (simp_all add: exService_def wallets_get_def)

lemma exService_enabled [simp]: "EnableWalletAPI (config (exService dir))"
  by (simp add: exService_def exConfig_def)

theorem C7_witness:
  "EnableWalletAPI (config (exService ''/tmp'')) \<and>
   wallets_get (wallets (exService ''/tmp'')) ''missing.wlt'' = None \<and>
   EncryptWallet refCollab (exService ''/tmp'') ''missing.wlt'' ''pw'' =
     (Inl ErrWalletNotExist, exService ''/tmp'') \<and>
   wallets_get (wallets (exService ''/tmp'')) ''sealed.wlt'' = Some exSealed \<and> IsEncrypted exSealed \<and>
   EncryptWallet refCollab (exService ''/tmp'') ''sealed.wlt'' ''pw'' =
     (Inl ErrWalletEncrypted, exService ''/tmp'') \<and>
   wallets_get (wallets (exService ''/tmp'')) ''plain.wlt'' = Some exPlain \<and> \<not> IsEncrypted exPlain \<and>
   DecryptWallet refCollab (exService ''/tmp'') ''plain.wlt'' ''pw'' =
     (Inl ErrWalletNotEncrypted, exService ''/tmp'')"
  using C7_encrypt_decrypt_preconditions [of "exService ''/tmp''" "''missing.wlt''" refCollab "''pw''"]
        C7_encrypt_decrypt_preconditions [of "exService ''/tmp''" "''sealed.wlt''" refCollab "''pw''"]
        C7_encrypt_decrypt_preconditions [of "exService ''/tmp''" "''plain.wlt''" refCollab "''pw''"]
  by (simp add: exSealed_def exPlain_def)

text \<open>
  Claim C9. For an unencrypted wallet of the registry and a non-empty password,
  \<^verbatim>\<open>NewAddresses\<close>, \<^verbatim>\<open>UpdateSecrets\<close> and \<^verbatim>\<open>ViewSecrets\<close> fail with
  \<open>ErrWalletNotEncrypted\<close>; the two operations that write the service return the state
  unchanged (\<^verbatim>\<open>ViewSecrets\<close> never writes it).
\<close>

theorem C9_password_on_unencrypted:
  assumes "EnableWalletAPI (config serv)"
    and "wallets_get (wallets serv) wltID = Some w"
    and "\<not> IsEncrypted w"
    and "password \<noteq> []"
  shows "NewAddresses c serv wltID password num = (Inl ErrWalletNotEncrypted, serv) \<and>
         UpdateSecrets c serv wltID password f = (Inl ErrWalletNotEncrypted, serv) \<and>
         ViewSecrets c serv wltID password g = Inl ErrWalletNotEncrypted"
  using assms
  by (simp add: NewAddresses_def UpdateSecrets_def ViewSecrets_def getWallet_Some)

theorem C9_witness:
  "EnableWalletAPI (config (exService ''/tmp'')) \<and>
   wallets_get (wallets (exService ''/tmp'')) ''plain.wlt'' = Some exPlain \<and>
   \<not> IsEncrypted exPlain \<and> ''pw'' \<noteq> [] \<and>
   NewAddresses refCollab (exService ''/tmp'') ''plain.wlt'' ''pw'' 2 =
     (Inl ErrWalletNotEncrypted, exService ''/tmp'') \<and>
   UpdateSecrets refCollab (exService ''/tmp'') ''plain.wlt'' ''pw'' relabel =
     (Inl ErrWalletNotEncrypted, exService ''/tmp'') \<and>
   ViewSecrets refCollab (exService ''/tmp'') ''plain.wlt'' ''pw'' relabel = Inl ErrWalletNotEncrypted"
  using C9_password_on_unencrypted [of "exService ''/tmp''" "''plain.wlt''" exPlain "''pw''" refCollab 2 relabel relabel]
  by (simp add: exPlain_def)

lemma wallets_get_remove: "wallets_get (wallets_remove wlts k) k = None"
  by (simp add: wallets_get_def wallets_remove_def delete_conv')

lemma wallets_remove_absent: "wallets_get wlts k = None \<Longrightarrow> wallets_remove wlts k = wlts"
  by (simp add: wallets_get_def wallets_remove_def map_of_eq_None_iff)

text \<open>
  Claim C10. With the wallet API enabled, \<^verbatim>\<open>UnloadWallet\<close> returns nil for every id, also
  one that is not in the registry, and unloading the same id a second time returns nil again
  and leaves the state the first call produced unchanged.
\<close>

theorem C10_unload_idempotent:
  assumes "EnableWalletAPI (config serv)"
  shows "fst (UnloadWallet serv wltID) = None \<and>
         UnloadWallet (snd (UnloadWallet serv wltID)) wltID = (None, snd (UnloadWallet serv wltID))"
  using assms
  by (simp add: UnloadWallet_def Let_def wallets_get_remove wallets_remove_absent)

theorem C10_witness:
  "EnableWalletAPI (config (exService ''/tmp'')) \<and>
   wallets_get (wallets (exService ''/tmp'')) ''missing.wlt'' = None \<and>
   fst (UnloadWallet (exService ''/tmp'') ''missing.wlt'') = None \<and>
   UnloadWallet (snd (UnloadWallet (exService ''/tmp'') ''missing.wlt'')) ''missing.wlt'' =
     (None, snd (UnloadWallet (exService ''/tmp'') ''missing.wlt''))"
  using C10_unload_idempotent [of "exService ''/tmp''" "''missing.wlt''"]
  by simp

lemma firstAddress_Cons: "firstAddress w = Some a \<Longrightarrow> \<exists>e es. Entries w = e # es \<and> Address e = a"
  by (auto simp: firstAddress_def split: list.splits)

text \<open>
  Claim C5. For an existing, encrypted, deterministic wallet, \<^verbatim>\<open>RecoverWallet\<close> with a
  seed whose derived first address differs from the address of the wallet's first entry
  fails with \<open>ErrWalletRecoverSeedWrong\<close>, and the service state (wallet map and index) is
  the state before the call.
\<close>

theorem C5_recover_wrong_seed:
  assumes "EnableWalletAPI (config serv)"
    and "wallets_get (wallets serv) wltName = Some w"
    and "IsEncrypted w"
    and "Type w = WalletTypeDeterministic"
    and "GenerateDeterministicKeyPair c sd = Inr (pk, sk)"
    and "firstAddress w = Some a"
    and "addressConstructor c w pk \<noteq> a"
  shows "RecoverWallet c serv wltName sd password = (Inl ErrWalletRecoverSeedWrong, serv)"
proof -
  from assms(6) obtain e es where "Entries w = e # es" "Address e = a"
    using firstAddress_Cons by blast
  with assms show ?thesis
    by (simp add: RecoverWallet_def getWallet_Some)
qed

theorem C5_witness:
  "EnableWalletAPI (config (exService ''/tmp'')) \<and>
   wallets_get (wallets (exService ''/tmp'')) ''sealed.wlt'' = Some exSealed \<and>
   IsEncrypted exSealed \<and> Type exSealed = WalletTypeDeterministic \<and>
   GenerateDeterministicKeyPair refCollab ''s3'' = Inr (''pub-s3'', ''sec-s3'') \<and>
   firstAddress exSealed = Some ''addr-s2'' \<and>
   addressConstructor refCollab exSealed ''pub-s3'' \<noteq> ''addr-s2'' \<and>
   RecoverWallet refCollab (exService ''/tmp'') ''sealed.wlt'' ''s3'' ''pw2'' =
     (Inl ErrWalletRecoverSeedWrong, exService ''/tmp'')"
  using C5_recover_wrong_seed [of "exService ''/tmp''" "''sealed.wlt''" exSealed refCollab
      "''s3''" "''pub-s3''" "''sec-s3''" "''addr-s2''" "''pw2''"]
  by (simp add: exSealed_def refCollab_def deriveEntry_def firstAddress_def)

lemma CreateWallet_name:
  assumes "EnableWalletAPI (config serv)"
    and "(if wltName = [] then generateUniqueWalletFilename c serv else Some wltName) = Some name"
  shows "CreateWallet c serv wltName options bg = Some (loadWallet c serv name options bg)"
  using assms by (auto simp: CreateWallet_def split: if_splits)

text \<open>
  Claim C3, as amended. In a registry state that satisfies the index invariant of the data
  model and holds a wallet with first address \<open>a\<close>, \<^verbatim>\<open>CreateWallet\<close> with options from
  which the wallet construction derives a wallet with first address \<open>a\<close> fails with
  \<open>ErrSeedUsed\<close> and returns the state unchanged: the same wallet map (so the same number
  of wallets) and the same index. \<^verbatim>\<open>loadWallet\<close> looks the address up in the index, not in
  the wallet map, so without the invariant the claim fails (the run at the end of the
  theory).
\<close>

theorem C3_seed_already_used:
  assumes "EnableWalletAPI (config serv)"
    and "indexExact serv"
    and "wallets_get (wallets serv) wltID0 = Some w0"
    and "firstAddress w0 = Some a"
    and "(if wltName = [] then generateUniqueWalletFilename c serv else Some wltName) = Some name"
    and "NewWalletScanAhead c name
           (if optEncrypt options then options\<lparr>optCryptoType := CryptoType (config serv)\<rparr>
            else options) bg = Inr w"
    and "firstAddress w = Some a"
  shows "CreateWallet c serv wltName options bg = Some (Inl ErrSeedUsed, serv)"
proof -
  from assms(2,3,4) have idx: "firstAddrIDMap serv a = Some wltID0"
    unfolding indexExact_def by (metis option.inject)
  from assms(7) obtain e es where e: "Entries w = e # es" "Address e = a"
    using firstAddress_Cons by blast
  have "loadWallet c serv name options bg = (Inl ErrSeedUsed, serv)"
    using assms(6) idx e by (simp add: loadWallet_def Let_def)
  with CreateWallet_name [OF assms(1,5)] show ?thesis by simp
qed

text \<open>
  Claim C4. When \<^verbatim>\<open>CreateWallet\<close> has added the new wallet to the map and the save then
  fails, it returns the error of the save; afterwards the id of the new wallet is not in the
  wallet map (nor in what \<^verbatim>\<open>GetWallets\<close> returns), its first address is not in the index,
  and the whole state is the state before the call.
\<close>

theorem C4_create_save_failure:
  assumes "EnableWalletAPI (config serv)"
    and "(if wltName = [] then generateUniqueWalletFilename c serv else Some wltName) = Some name"
    and "NewWalletScanAhead c name
           (if optEncrypt options then options\<lparr>optCryptoType := CryptoType (config serv)\<rparr>
            else options) bg = Inr w"
    and "firstAddress w = Some a"
    and "firstAddrIDMap serv a = None"
    and "wallets_add (wallets serv) w = Inr wlts"
    and "Save c w (WalletDir (config serv)) = Some err"
  shows "\<exists>serv'. CreateWallet c serv wltName options bg = Some (Inl err, serv') \<and>
           wallets_get (wallets serv') (Filename w) = None \<and>
           (\<forall>wl. GetWallets serv' = Inr wl \<longrightarrow> Filename w \<notin> fst ` set wl) \<and>
           firstAddrIDMap serv' a = None \<and>
           serv' = serv"
proof -
  from assms(4) obtain e es where e: "Entries w = e # es" "Address e = a"
    using firstAddress_Cons by blast
  from assms(6) have absent: "map_of (wallets serv) (Filename w) = None"
    and wlts: "wlts = AList.update (Filename w) w (wallets serv)"
    by (auto simp: wallets_add_def split: option.splits)
  from absent have notin: "Filename w \<notin> fst ` set (wallets serv)"
    by (simp add: map_of_eq_None_iff)
  have undone: "wallets_remove wlts (Filename w) = wallets serv"
    using notin by (simp add: wlts wallets_remove_def delete_update_same)
  have "loadWallet c serv name options bg = (Inl err, serv)"
    using assms(3,5,6,7) e undone by (simp add: loadWallet_def Let_def)
  with CreateWallet_name [OF assms(1,2)]
  have "CreateWallet c serv wltName options bg = Some (Inl err, serv)" by simp
  moreover have "\<forall>wl. GetWallets serv = Inr wl \<longrightarrow> Filename w \<notin> fst ` set wl"
    using notin by (force simp: GetWallets_def clone_def split: if_splits)
  ultimately show ?thesis
    using absent assms(5) by (simp add: wallets_get_def)
qed


lemma ex_first [simp]:
  "firstAddress exPlain = Some ''addr-s1''" "firstAddress exSealed = Some ''addr-s2''"
  by (simp_all add: firstAddress_def exPlain_def exSealed_def)

lemma exService_indexExact: "indexExact (exService dir)"
  by (auto simp: indexExact_def exService_def wallets_get_def split: if_splits)

lemma refNewWallet_exOptions:
  "sd \<noteq> [] \<Longrightarrow> refNewWallet name (exOptions sd) = Inr (exCreated name sd)"
  by (simp add: refNewWallet_def exOptions_def exCreated_def deriveEntry_def Let_def)

lemma exService_dir [simp]: "WalletDir (config (exService dir)) = dir"
  by (simp add: exService_def exConfig_def)

lemma refSave [simp]:
  "Save refCollab w ''/full'' = Some (ErrExternal ''disk full'')"
  "Save refCollab w ''/tmp'' = None"
  by (simp_all add: refCollab_def)

text \<open>The name loop returns as soon as some later name is free.\<close>

lemma uniqueFilenameFrom_returns:
  "wallets_get wlts (names (n + k)) = None \<Longrightarrow> \<exists>name. uniqueFilenameFrom names wlts n = Some name"
proof (induction k arbitrary: n)
  case 0
  then show ?case by (subst uniqueFilenameFrom.simps) simp
next
  case (Suc k)
  then have "\<exists>name. uniqueFilenameFrom names wlts (Suc n) = Some name" by simp
  then show ?case by (subst uniqueFilenameFrom.simps) simp
qed

lemma ex_unique_name:
  "generateUniqueWalletFilename refCollab (exService dir) = Some ''wallet-.wlt''"
  unfolding generateUniqueWalletFilename_def
  by (subst uniqueFilenameFrom.simps) (simp add: refCollab_def exService_def wallets_get_def)


theorem C3_witness:
  "EnableWalletAPI (config (exService ''/tmp'')) \<and> indexExact (exService ''/tmp'') \<and>
   wallets_get (wallets (exService ''/tmp'')) ''plain.wlt'' = Some exPlain \<and>
   firstAddress exPlain = Some ''addr-s1'' \<and>
   CreateWallet refCollab (exService ''/tmp'') ''again.wlt'' (exOptions ''s1'') noBalances =
     Some (Inl ErrSeedUsed, exService ''/tmp'') \<and>
   generateUniqueWalletFilename refCollab (exService ''/tmp'') = Some ''wallet-.wlt'' \<and>
   CreateWallet refCollab (exService ''/tmp'') [] (exOptions ''s1'') noBalances =
     Some (Inl ErrSeedUsed, exService ''/tmp'')"
proof -
  let ?s = "exService ''/tmp''"
  have scan: "NewWalletScanAhead refCollab name
                (if optEncrypt (exOptions ''s1'')
                 then (exOptions ''s1'')\<lparr>optCryptoType := CryptoType (config ?s)\<rparr>
                 else exOptions ''s1'') noBalances = Inr (exCreated name ''s1'')" for name
    by (simp add: refCollab_def refNewWallet_exOptions) (simp add: exOptions_def)
  have first: "firstAddress (exCreated name ''s1'') = Some ''addr-s1''" for name
    by (simp add: firstAddress_def exCreated_def)
  have given: "(if ''again.wlt'' = [] then generateUniqueWalletFilename refCollab ?s
                else Some ''again.wlt'') = Some ''again.wlt''"
    by simp
  have drawn: "(if [] = [] then generateUniqueWalletFilename refCollab ?s else Some [])
                = Some ''wallet-.wlt''"
    by (simp add: ex_unique_name)
  show ?thesis
    using C3_seed_already_used [OF exService_enabled exService_indexExact exService_get(1)
        ex_first(1) given scan first]
      C3_seed_already_used [OF exService_enabled exService_indexExact exService_get(1)
        ex_first(1) drawn scan first]
      exService_indexExact [of "''/tmp''"] ex_unique_name [of "''/tmp''"]
    by simp
qed

theorem C4_witness:
  "EnableWalletAPI (config (exService ''/full'')) \<and>
   firstAddress (exCreated ''new.wlt'' ''s3'') = Some ''addr-s3'' \<and>
   firstAddrIDMap (exService ''/full'') ''addr-s3'' = None \<and>
   Save refCollab (exCreated ''new.wlt'' ''s3'') (WalletDir (config (exService ''/full''))) =
     Some (ErrExternal ''disk full'') \<and>
   CreateWallet refCollab (exService ''/full'') ''new.wlt'' (exOptions ''s3'') noBalances =
     Some (Inl (ErrExternal ''disk full''), exService ''/full'') \<and>
   wallets_get (wallets (exService ''/full'')) ''new.wlt'' = None"
proof -
  let ?s = "exService ''/full''"
  let ?w = "exCreated ''new.wlt'' ''s3''"
  have name: "(if ''new.wlt'' = [] then generateUniqueWalletFilename refCollab ?s
               else Some ''new.wlt'') = Some ''new.wlt''"
    by simp
  have scan: "NewWalletScanAhead refCollab ''new.wlt''
                (if optEncrypt (exOptions ''s3'')
                 then (exOptions ''s3'')\<lparr>optCryptoType := CryptoType (config ?s)\<rparr>
                 else exOptions ''s3'') noBalances = Inr ?w"
    by (simp add: refCollab_def refNewWallet_exOptions) (simp add: exOptions_def)
  have first: "firstAddress ?w = Some ''addr-s3''"
    by (simp add: firstAddress_def exCreated_def)
  have idx: "firstAddrIDMap ?s ''addr-s3'' = None"
    by (simp add: exService_def)
  have add: "wallets_add (wallets ?s) ?w = Inr (AList.update ''new.wlt'' ?w (wallets ?s))"
    by (simp add: wallets_add_def exService_def exCreated_def)
  have save: "Save refCollab ?w (WalletDir (config ?s)) = Some (ErrExternal ''disk full'')"
    by simp
  have fn: "Filename ?w = ''new.wlt''" by (simp add: exCreated_def)
  show ?thesis
    using C4_create_save_failure [OF exService_enabled name scan first idx add save]
      first idx save fn
    by auto
qed

lemma GuardUpdate_cases:
  "GuardUpdate c w password fn = Inr (w', x) \<longleftrightarrow>
     (\<exists>wlt wlt'. Unlock c w password = Inr wlt \<and> fn wlt = Inr (wlt', x) \<and>
                  Lock c wlt' password (cryptoType w) = Inr w')"
  by (auto simp: GuardUpdate_def split: sum.splits prod.splits)

text \<open>
  Claim C1. For a wallet \<open>w\<close> of the registry and each of \<^verbatim>\<open>EncryptWallet\<close>,
  \<^verbatim>\<open>DecryptWallet\<close>, \<^verbatim>\<open>NewAddresses\<close>, \<^verbatim>\<open>UpdateWalletLabel\<close>, \<^verbatim>\<open>UpdateSecrets\<close>,
  \<^verbatim>\<open>Update\<close> and \<^verbatim>\<open>RecoverWallet\<close>: when the operation gets as far as saving the new
  wallet \<open>wNew\<close> and the save returns an error, the operation returns that error and the
  service state (wallet map and index) is the state before the call. The premise of each
  conjunct says how the operation arrives at the wallet it saves.
\<close>

theorem C1_save_failure_keeps_state:
  assumes "EnableWalletAPI (config serv)"
    and "wallets_get (wallets serv) wltID = Some w"
    and "Save c wNew (WalletDir (config serv)) = Some err"
  shows
    "(\<not> IsEncrypted w \<and> Lock c w password (CryptoType (config serv)) = Inr wNew \<longrightarrow>
        EncryptWallet c serv wltID password = (Inl err, serv)) \<and>
     (IsEncrypted w \<and> Unlock c w password = Inr wNew \<longrightarrow>
        DecryptWallet c serv wltID password = (Inl err, serv)) \<and>
     ((if IsEncrypted w then GuardUpdate c w password (\<lambda>wlt. GenerateSkycoinAddresses c wlt num)
       else if password \<noteq> [] then Inl ErrWalletNotEncrypted
       else GenerateSkycoinAddresses c w num) = Inr (wNew, addrs) \<longrightarrow>
        NewAddresses c serv wltID password num = (Inl err, serv)) \<and>
     (setLabel w label = wNew \<longrightarrow>
        UpdateWalletLabel c serv wltID label = (Some err, serv)) \<and>
     ((if IsEncrypted w then GuardUpdate c w password f
       else if password \<noteq> [] then Inl ErrWalletNotEncrypted
       else f w) = Inr (wNew, x) \<longrightarrow>
        UpdateSecrets c serv wltID password f = (Inl err, serv)) \<and>
     (g w = Inr (wNew, y) \<longrightarrow>
        Update c serv wltID g = (Inl err, serv)) \<and>
     (IsEncrypted w \<and> Type w = WalletTypeDeterministic \<and>
      GenerateDeterministicKeyPair c sd = Inr (pk, sk) \<and>
      firstAddress w = Some (addressConstructor c w pk) \<and>
      NewWallet c wltID (recoverOptions w sd password) = Inr wRec \<and>
      setTimestamp wRec (timestamp w) = wNew \<longrightarrow>
        RecoverWallet c serv wltID sd password = (Inl err, serv))"
proof -
  note gw = getWallet_Some [OF assms(2)]
  have enc: "\<not> IsEncrypted w \<and> Lock c w password (CryptoType (config serv)) = Inr wNew \<longrightarrow>
        EncryptWallet c serv wltID password = (Inl err, serv)"
    using assms(1,3) gw by (simp add: EncryptWallet_def)
  have dec: "IsEncrypted w \<and> Unlock c w password = Inr wNew \<longrightarrow>
        DecryptWallet c serv wltID password = (Inl err, serv)"
    using assms(1,3) gw by (simp add: DecryptWallet_def)
  have new: "(if IsEncrypted w then GuardUpdate c w password (\<lambda>wlt. GenerateSkycoinAddresses c wlt num)
       else if password \<noteq> [] then Inl ErrWalletNotEncrypted
       else GenerateSkycoinAddresses c w num) = Inr (wNew, addrs) \<longrightarrow>
        NewAddresses c serv wltID password num = (Inl err, serv)"
    using assms(1,3) gw by (simp add: NewAddresses_def Let_def)
  have lab: "setLabel w label = wNew \<longrightarrow>
        UpdateWalletLabel c serv wltID label = (Some err, serv)"
    using assms(1,3) gw by (auto simp add: UpdateWalletLabel_def Let_def)
  have sec: "(if IsEncrypted w then GuardUpdate c w password f
       else if password \<noteq> [] then Inl ErrWalletNotEncrypted
       else f w) = Inr (wNew, x) \<longrightarrow>
        UpdateSecrets c serv wltID password f = (Inl err, serv)"
    using assms(1,3) gw by (simp add: UpdateSecrets_def)
  have upd: "g w = Inr (wNew, y) \<longrightarrow> Update c serv wltID g = (Inl err, serv)"
    using assms(1,3) gw by (simp add: Update_def)
  have rec: "IsEncrypted w \<and> Type w = WalletTypeDeterministic \<and>
      GenerateDeterministicKeyPair c sd = Inr (pk, sk) \<and>
      firstAddress w = Some (addressConstructor c w pk) \<and>
      NewWallet c wltID (recoverOptions w sd password) = Inr wRec \<and>
      setTimestamp wRec (timestamp w) = wNew \<longrightarrow>
        RecoverWallet c serv wltID sd password = (Inl err, serv)"
  proof (intro impI, elim conjE)
    assume h: "IsEncrypted w" "Type w = WalletTypeDeterministic"
      "GenerateDeterministicKeyPair c sd = Inr (pk, sk)"
      "firstAddress w = Some (addressConstructor c w pk)"
      "NewWallet c wltID (recoverOptions w sd password) = Inr wRec"
      "setTimestamp wRec (timestamp w) = wNew"
    from h(4) obtain e es where e: "Entries w = e # es" "Address e = addressConstructor c w pk"
      using firstAddress_Cons by blast
    show "RecoverWallet c serv wltID sd password = (Inl err, serv)"
      using assms(1,3) gw h e by (simp add: RecoverWallet_def Let_def)
  qed
  from enc dec new lab sec upd rec show ?thesis by blast
qed

lemma ex_recover_new:
  "NewWallet refCollab ''sealed.wlt'' (recoverOptions exSealed ''s2'' ''pw2'') =
     Inr (exRecovered\<lparr>timestamp := 0\<rparr>)"
  by (simp add: refCollab_def refNewWallet_def recoverOptions_def exSealed_def exRecovered_def
      refLock_def deriveEntry_def Let_def)

lemma ex_keypair:
  "sd \<noteq> [] \<Longrightarrow> GenerateDeterministicKeyPair refCollab sd = Inr (''pub-'' @ sd, ''sec-'' @ sd)"
  by (simp add: refCollab_def deriveEntry_def)

lemma ex_address [simp]: "addressConstructor refCollab w pk = ''addr-'' @ drop 4 pk"
  by (simp add: refCollab_def)

theorem C1_witness:
  "EnableWalletAPI (config (exService ''/full'')) \<and>
   wallets_get (wallets (exService ''/full'')) ''plain.wlt'' = Some exPlain \<and>
   wallets_get (wallets (exService ''/full'')) ''sealed.wlt'' = Some exSealed \<and>
   EncryptWallet refCollab (exService ''/full'') ''plain.wlt'' ''pw'' =
     (Inl (ErrExternal ''disk full''), exService ''/full'') \<and>
   DecryptWallet refCollab (exService ''/full'') ''sealed.wlt'' ''pw'' =
     (Inl (ErrExternal ''disk full''), exService ''/full'') \<and>
   NewAddresses refCollab (exService ''/full'') ''sealed.wlt'' ''pw'' 2 =
     (Inl (ErrExternal ''disk full''), exService ''/full'') \<and>
   UpdateWalletLabel refCollab (exService ''/full'') ''plain.wlt'' ''renamed'' =
     (Some (ErrExternal ''disk full''), exService ''/full'') \<and>
   UpdateSecrets refCollab (exService ''/full'') ''sealed.wlt'' ''pw'' relabel =
     (Inl (ErrExternal ''disk full''), exService ''/full'') \<and>
   Update refCollab (exService ''/full'') ''plain.wlt'' relabel =
     (Inl (ErrExternal ''disk full''), exService ''/full'') \<and>
   RecoverWallet refCollab (exService ''/full'') ''sealed.wlt'' ''s2'' ''pw2'' =
     (Inl (ErrExternal ''disk full''), exService ''/full'')"
proof -
  let ?s = "exService ''/full''"
  note en = exService_enabled [of "''/full''"]
  note plain = exService_get(1) [of "''/full''"]
  note sealed = exService_get(2) [of "''/full''"]
  have sv: "Save refCollab v (WalletDir (config ?s)) = Some (ErrExternal ''disk full'')" for v
    by simp
  obtain a where a: "Lock refCollab exPlain ''pw'' (CryptoType (config ?s)) = Inr a"
    by (simp add: refCollab_def refLock_def exPlain_def)
  obtain b where b: "Unlock refCollab exSealed ''pw'' = Inr b"
    by (simp add: refCollab_def refUnlock_def exSealed_def)
  obtain d ds where d: "GuardUpdate refCollab exSealed ''pw''
      (\<lambda>wlt. GenerateSkycoinAddresses refCollab wlt 2) = Inr (d, ds)"
    by (simp add: GuardUpdate_def refCollab_def refUnlock_def refLock_def exSealed_def
        refGenerateSkycoinAddresses_def Let_def)
  obtain k where k: "GuardUpdate refCollab exSealed ''pw'' relabel = Inr (k, ())"
    by (simp add: GuardUpdate_def refCollab_def refUnlock_def refLock_def exSealed_def
        relabel_def)
  have l: "relabel exPlain = Inr (exPlain\<lparr>Label := ''renamed''\<rparr>, ())"
    by (simp add: relabel_def)
  have 1: "EncryptWallet refCollab ?s ''plain.wlt'' ''pw'' = (Inl (ErrExternal ''disk full''), ?s)"
    using C1_save_failure_keeps_state [where wNew = a and password = "''pw''", OF en plain sv, THEN conjunct1] a
    by (simp add: exPlain_def)
  have 2: "DecryptWallet refCollab ?s ''sealed.wlt'' ''pw'' = (Inl (ErrExternal ''disk full''), ?s)"
    using C1_save_failure_keeps_state [where wNew = b and password = "''pw''", OF en sealed sv, THEN conjunct2, THEN conjunct1] b
    by (simp add: exSealed_def)
  have 3: "NewAddresses refCollab ?s ''sealed.wlt'' ''pw'' 2 = (Inl (ErrExternal ''disk full''), ?s)"
    using C1_save_failure_keeps_state [where wNew = d and password = "''pw''"
        and num = 2 and addrs = ds, OF en sealed sv, THEN conjunct2, THEN conjunct2, THEN conjunct1] d
    by (simp add: exSealed_def)
  have 4: "UpdateWalletLabel refCollab ?s ''plain.wlt'' ''renamed'' =
      (Some (ErrExternal ''disk full''), ?s)"
    using C1_save_failure_keeps_state [where wNew = "setLabel exPlain ''renamed''" and label = "''renamed''",
        OF en plain sv, THEN conjunct2, THEN conjunct2, THEN conjunct2, THEN conjunct1]
    by simp
  have 5: "UpdateSecrets refCollab ?s ''sealed.wlt'' ''pw'' relabel =
      (Inl (ErrExternal ''disk full''), ?s)"
    using C1_save_failure_keeps_state [where wNew = k and password = "''pw''"
        and f = relabel and x = "()", OF en sealed sv, THEN conjunct2, THEN conjunct2, THEN conjunct2, THEN conjunct2, THEN conjunct1] k
    by (simp add: exSealed_def)
  have 6: "Update refCollab ?s ''plain.wlt'' relabel = (Inl (ErrExternal ''disk full''), ?s)"
    using C1_save_failure_keeps_state [where wNew = "exPlain\<lparr>Label := ''renamed''\<rparr>" and g = relabel and y = "()",
        OF en plain sv, THEN conjunct2, THEN conjunct2, THEN conjunct2, THEN conjunct2, THEN conjunct2, THEN conjunct1] l
    by simp
  have 7: "RecoverWallet refCollab ?s ''sealed.wlt'' ''s2'' ''pw2'' =
      (Inl (ErrExternal ''disk full''), ?s)"
    using C1_save_failure_keeps_state [where wNew = "setTimestamp (exRecovered\<lparr>timestamp := 0\<rparr>) (timestamp exSealed)"
        and wRec = "exRecovered\<lparr>timestamp := 0\<rparr>" and sd = "''s2''" and password = "''pw2''"
        and pk = "''pub-s2''" and sk = "''sec-s2''",
        OF en sealed sv, THEN conjunct2, THEN conjunct2, THEN conjunct2, THEN conjunct2, THEN conjunct2, THEN conjunct2]
      ex_recover_new ex_keypair [of "''s2''"]
    by (simp add: exSealed_def firstAddress_def refCollab_def)
  from en plain sealed 1 2 3 4 5 6 7 show ?thesis by blast
qed

lemma wallets_get_set:
  "wallets_get (wallets_set wlts w) k = (if k = Filename w then Some w else wallets_get wlts k)"
  by (simp add: wallets_get_def wallets_set_def clone_def update_conv')














section \<open>The index invariant on reachable states\<close>

lemma keepsIdentity_refl: "keepsIdentity w w"
  by (simp add: keepsIdentity_def)

lemma keepsIdentity_trans:
  "keepsIdentity w a \<Longrightarrow> keepsIdentity a b \<Longrightarrow> keepsIdentity w b"
  by (auto simp: keepsIdentity_def)

lemma regOk_set:
  assumes "regOk serv"
    and "wallets_get (wallets serv) k = Some w"
    and "keepsIdentity w w'"
  shows "regOk (serv\<lparr>wallets := wallets_set (wallets serv) w'\<rparr>)"
proof -
  from assms(1,2) have fk: "Filename w = k"
    by (simp add: regOk_def idsConsistent_def)
  from assms(1,2) obtain a where a: "firstAddress w = Some a" "firstAddrIDMap serv a = Some k"
    unfolding regOk_def indexExact_def by blast
  from assms(3) fk a have w': "Filename w' = k" "firstAddress w' = Some a"
    by (simp_all add: keepsIdentity_def)
  have ids: "idsConsistent (serv\<lparr>wallets := wallets_set (wallets serv) w'\<rparr>)"
    using assms(1) w'(1)
    by (auto simp: regOk_def idsConsistent_def wallets_get_set split: if_splits)
  have "indexExact (serv\<lparr>wallets := wallets_set (wallets serv) w'\<rparr>)"
    unfolding indexExact_def
  proof (intro conjI allI impI)
    fix wltID v
    assume "wallets_get (wallets (serv\<lparr>wallets := wallets_set (wallets serv) w'\<rparr>)) wltID = Some v"
    then have "(wltID = k \<and> v = w') \<or> (wltID \<noteq> k \<and> wallets_get (wallets serv) wltID = Some v)"
      using w'(1) by (auto simp: wallets_get_set split: if_splits)
    then show "\<exists>b. firstAddress v = Some b \<and>
        firstAddrIDMap (serv\<lparr>wallets := wallets_set (wallets serv) w'\<rparr>) b = Some wltID"
      using a w'(2) assms(1) unfolding regOk_def indexExact_def by auto
  next
    fix b wltID
    assume "firstAddrIDMap (serv\<lparr>wallets := wallets_set (wallets serv) w'\<rparr>) b = Some wltID"
    then have idx: "firstAddrIDMap serv b = Some wltID" by simp
    with assms(1) obtain v where v: "wallets_get (wallets serv) wltID = Some v"
      "firstAddress v = Some b"
      unfolding regOk_def indexExact_def by blast
    show "\<exists>v. wallets_get (wallets (serv\<lparr>wallets := wallets_set (wallets serv) w'\<rparr>)) wltID = Some v \<and>
        firstAddress v = Some b"
    proof (cases "wltID = k")
      case True
      with v assms(2) a have "b = a" by simp
      with True w' show ?thesis by (simp add: wallets_get_set)
    next
      case False
      with v w'(1) show ?thesis by (simp add: wallets_get_set)
    qed
  qed
  with ids show ?thesis by (simp add: regOk_def)
qed

lemma setStep_same: "setStep serv k serv"
  by (simp add: setStep_def)

lemma setStep_set:
  "wallets_get (wallets serv) k = Some w \<Longrightarrow> keepsIdentity w w' \<Longrightarrow>
   setStep serv k (serv\<lparr>wallets := wallets_set (wallets serv) w'\<rparr>)"
  by (auto simp: setStep_def)

lemma regOk_setStep: "regOk serv \<Longrightarrow> setStep serv k serv' \<Longrightarrow> regOk serv'"
  by (auto simp: setStep_def intro: regOk_set)

lemma getWallet_Inr: "getWallet serv k = Inr w \<Longrightarrow> wallets_get (wallets serv) k = Some w"
  by (auto simp: getWallet_def clone_def split: option.splits)

lemma collab_Lock:
  "collabKeepsIdentity c \<Longrightarrow> Lock c w pw ct = Inr w' \<Longrightarrow> keepsIdentity w w'"
  by (simp add: collabKeepsIdentity_def)

lemma collab_Unlock:
  "collabKeepsIdentity c \<Longrightarrow> Unlock c w pw = Inr w' \<Longrightarrow> keepsIdentity w w'"
  by (simp add: collabKeepsIdentity_def)

lemma collab_Generate:
  "collabKeepsIdentity c \<Longrightarrow> GenerateSkycoinAddresses c w n = Inr (w', addrs) \<Longrightarrow>
   keepsIdentity w w'"
  unfolding collabKeepsIdentity_def by (elim conjE) blast

lemma collab_NewWallet_name:
  "collabKeepsIdentity c \<Longrightarrow> NewWallet c name opts = Inr w2 \<Longrightarrow> Filename w2 = name"
  by (simp add: collabKeepsIdentity_def)

lemma collab_NewWallet_first:
  "collabKeepsIdentity c \<Longrightarrow> NewWallet c name opts = Inr w2 \<Longrightarrow>
   GenerateDeterministicKeyPair c (optSeed opts) = Inr (pk, sk) \<Longrightarrow> coin w = optCoin opts \<Longrightarrow>
   firstAddress w2 = Some (addressConstructor c w pk)"
  by (simp add: collabKeepsIdentity_def)

lemma collab_LoadWallets:
  "collabKeepsIdentity c \<Longrightarrow> LoadWallets c dir = Inr wlts \<Longrightarrow>
   distinct (map fst wlts) \<and> (\<forall>(k, w) \<in> set wlts. Filename w = k)"
  by (simp add: collabKeepsIdentity_def)

lemma GuardUpdate_keeps:
  assumes "collabKeepsIdentity c"
    and "callbackKeepsIdentity fn"
    and "GuardUpdate c w password fn = Inr (w', x)"
  shows "keepsIdentity w w'"
proof -
  from assms(3) obtain wlt wlt' where s: "Unlock c w password = Inr wlt"
    "fn wlt = Inr (wlt', x)" "Lock c wlt' password (cryptoType w) = Inr w'"
    by (auto simp: GuardUpdate_cases)
  from assms(1) s(1) have 1: "keepsIdentity w wlt" by (rule collab_Unlock)
  from assms(2) s(2) have 2: "keepsIdentity wlt wlt'" unfolding callbackKeepsIdentity_def by blast
  from assms(1) s(3) have 3: "keepsIdentity wlt' w'" by (rule collab_Lock)
  from 1 2 3 show ?thesis by (blast intro: keepsIdentity_trans)
qed

lemma generate_callback:
  "collabKeepsIdentity c \<Longrightarrow> callbackKeepsIdentity (\<lambda>wlt. GenerateSkycoinAddresses c wlt num)"
  unfolding callbackKeepsIdentity_def by (blast dest: collab_Generate)

lemma EncryptWallet_step:
  assumes "collabKeepsIdentity c" and "EncryptWallet c serv wltID password = (r, serv')"
  shows "setStep serv wltID serv'"
proof -
  have L: "Lock c w password ct = Inr w' \<Longrightarrow> keepsIdentity w w'" for w ct w'
    using assms(1) by (blast dest: collab_Lock collab_Unlock)
  show ?thesis using assms(2)
    by (auto simp: EncryptWallet_def setStep_same split: if_splits sum.splits option.splits
        intro!: setStep_set getWallet_Inr L L [OF sym])
qed

lemma DecryptWallet_step:
  assumes "collabKeepsIdentity c" and "DecryptWallet c serv wltID password = (r, serv')"
  shows "setStep serv wltID serv'"
proof -
  have L: "Unlock c w password = Inr w' \<Longrightarrow> keepsIdentity w w'" for w w'
    using assms(1) by (blast dest: collab_Lock collab_Unlock)
  show ?thesis using assms(2)
    by (auto simp: DecryptWallet_def setStep_same split: if_splits sum.splits option.splits
        intro!: setStep_set getWallet_Inr L L [OF sym])
qed

lemma guarded_keeps:
  assumes "collabKeepsIdentity c" and "callbackKeepsIdentity f"
    and "(if IsEncrypted w then GuardUpdate c w password f
          else if length password \<noteq> 0 then Inl ErrWalletNotEncrypted
          else f w) = Inr (w', x)"
  shows "keepsIdentity w w'"
  using assms
  by (auto split: if_splits dest: GuardUpdate_keeps simp: callbackKeepsIdentity_def)

lemma NewAddresses_step:
  assumes "collabKeepsIdentity c" and "NewAddresses c serv wltID password num = (r, serv')"
  shows "setStep serv wltID serv'"
proof (cases "EnableWalletAPI (config serv)")
  case False
  with assms(2) show ?thesis by (simp add: NewAddresses_def setStep_def)
next
  case True
  show ?thesis
  proof (cases "getWallet serv wltID")
    case (Inl e)
    with True assms(2) show ?thesis by (simp add: NewAddresses_def setStep_def)
  next
    case (Inr w)
    let ?g = "(if IsEncrypted w
               then GuardUpdate c w password (\<lambda>wlt. GenerateSkycoinAddresses c wlt num)
               else if length password \<noteq> 0 then Inl ErrWalletNotEncrypted
               else GenerateSkycoinAddresses c w num)"
    show ?thesis
    proof (cases ?g)
      case (Inl e)
      with True Inr assms(2) show ?thesis by (simp add: NewAddresses_def setStep_def Let_def)
    next
      case g: (Inr p)
      obtain w' addrs where p: "p = (w', addrs)" by (cases p)
      from guarded_keeps [OF assms(1) generate_callback [OF assms(1)], of w password num w' addrs]
        g p have k: "keepsIdentity w w'" by simp
      from True Inr g p assms(2) k getWallet_Inr [OF Inr] show ?thesis
        by (auto simp: NewAddresses_def setStep_same Let_def split: option.splits
            intro!: setStep_set)
    qed
  qed
qed

lemma UpdateSecrets_step:
  assumes "collabKeepsIdentity c" and "callbackKeepsIdentity f"
    and "UpdateSecrets c serv wltID password f = (r, serv')"
  shows "setStep serv wltID serv'"
proof (cases "EnableWalletAPI (config serv)")
  case False
  with assms(3) show ?thesis by (simp add: UpdateSecrets_def setStep_def)
next
  case True
  show ?thesis
  proof (cases "getWallet serv wltID")
    case (Inl e)
    with True assms(3) show ?thesis by (simp add: UpdateSecrets_def setStep_def)
  next
    case (Inr w)
    let ?g = "(if IsEncrypted w then GuardUpdate c w password f
               else if length password \<noteq> 0 then Inl ErrWalletNotEncrypted
               else f w)"
    show ?thesis
    proof (cases ?g)
      case (Inl e)
      with True Inr assms(3) show ?thesis by (simp add: UpdateSecrets_def setStep_def)
    next
      case g: (Inr p)
      obtain w' x where p: "p = (w', x)" by (cases p)
      from guarded_keeps [OF assms(1,2), of w password w' x] g p
      have k: "keepsIdentity w w'" by simp
      from True Inr g p assms(3) k getWallet_Inr [OF Inr] show ?thesis
        by (auto simp: UpdateSecrets_def setStep_same split: option.splits
            intro!: setStep_set)
    qed
  qed
qed

lemma Update_step:
  assumes "callbackKeepsIdentity f" and "Update c serv wltID f = (r, serv')"
  shows "setStep serv wltID serv'"
proof -
  have L: "f w = Inr (w', x) \<Longrightarrow> keepsIdentity w w'" for w w' x
    using assms(1) unfolding callbackKeepsIdentity_def by blast
  show ?thesis using assms(2)
    by (auto simp: Update_def setStep_same split: if_splits sum.splits option.splits
        intro!: setStep_set getWallet_Inr L L [OF sym])
qed

lemma UpdateWalletLabel_step:
  assumes "UpdateWalletLabel c serv wltID label = (r, serv')"
  shows "setStep serv wltID serv'"
proof -
  have L: "keepsIdentity w (setLabel w label)" for w
    by (simp add: keepsIdentity_def setLabel_def firstAddress_def)
  show ?thesis using assms
    by (auto simp: UpdateWalletLabel_def setStep_same Let_def
        split: if_splits sum.splits option.splits intro!: setStep_set getWallet_Inr L)
qed

lemma RecoverWallet_step:
  assumes "collabKeepsIdentity c" and "idsConsistent serv"
    and "RecoverWallet c serv wltName sd password = (r, serv')"
  shows "setStep serv wltName serv'"
proof (cases "serv' = serv")
  case True
  then show ?thesis by (simp add: setStep_same)
next
  case False
  with assms(3) have en: "EnableWalletAPI (config serv)"
    by (auto simp: RecoverWallet_def split: if_splits)
  from False assms(3) en obtain w where gw: "getWallet serv wltName = Inr w"
    by (cases "getWallet serv wltName") (auto simp: RecoverWallet_def)
  note get = getWallet_Inr [OF gw]
  from False assms(3) en gw obtain pk sk where
    kp: "GenerateDeterministicKeyPair c sd = Inr (pk, sk)"
    by (cases "GenerateDeterministicKeyPair c sd")
       (auto simp: RecoverWallet_def split: if_splits)
  from False assms(3) en gw kp obtain e es where e: "Entries w = e # es"
    by (cases "Entries w") (auto simp: RecoverWallet_def Let_def split: if_splits)
  from False assms(3) en gw kp e have addr: "addressConstructor c w pk = Address e"
    by (auto simp: RecoverWallet_def Let_def split: if_splits)
  from False assms(3) en gw kp e addr obtain wNew where
    new: "NewWallet c wltName (recoverOptions w sd password) = Inr wNew"
    by (cases "NewWallet c wltName (recoverOptions w sd password)")
       (auto simp: RecoverWallet_def Let_def split: if_splits)
  from False assms(3) en gw kp e addr new have
    st: "serv' = serv\<lparr>wallets := wallets_set (wallets serv) (setTimestamp wNew (timestamp w))\<rparr>"
    by (auto simp: RecoverWallet_def Let_def split: if_splits option.splits)
  from assms(2) get have fw: "Filename w = wltName" by (simp add: idsConsistent_def)
  have fn: "Filename wNew = wltName" using assms(1) new by (rule collab_NewWallet_name)
  have "firstAddress wNew = Some (addressConstructor c w pk)"
    using assms(1) new
  proof (rule collab_NewWallet_first)
    show "GenerateDeterministicKeyPair c (optSeed (recoverOptions w sd password)) = Inr (pk, sk)"
      using kp by (simp add: recoverOptions_def)
    show "coin w = optCoin (recoverOptions w sd password)"
      by (simp add: recoverOptions_def)
  qed
  with addr e have "firstAddress wNew = firstAddress w" by (simp add: firstAddress_def)
  with fn fw have "keepsIdentity w (setTimestamp wNew (timestamp w))"
    by (simp add: keepsIdentity_def setTimestamp_def firstAddress_def)
  with get st show ?thesis by (simp add: setStep_set)
qed

lemma wallets_add_undo:
  "wallets_add wlts w = Inr wlts' \<Longrightarrow> wallets_remove wlts' (Filename w) = wlts"
  by (auto simp: wallets_add_def wallets_remove_def delete_update_same map_of_eq_None_iff
      split: option.splits)

lemma wallets_add_get:
  "wallets_add wlts w = Inr wlts' \<Longrightarrow>
   wallets_get wlts (Filename w) = None \<and>
   wallets_get wlts' k = (if k = Filename w then Some w else wallets_get wlts k)"
  by (auto simp: wallets_add_def wallets_get_def update_conv' split: option.splits)

lemma regOk_add:
  assumes "regOk serv"
    and "wallets_add (wallets serv) w = Inr wlts"
    and "firstAddress w = Some a"
    and "firstAddrIDMap serv a = None"
  shows "regOk (serv\<lparr>wallets := wlts,
                    firstAddrIDMap := (firstAddrIDMap serv)(a \<mapsto> Filename w)\<rparr>)"
proof -
  note ag = wallets_add_get [OF assms(2)]
  from ag have fresh: "wallets_get (wallets serv) (Filename w) = None" by simp
  from ag have get: "wallets_get wlts k = (if k = Filename w then Some w else wallets_get (wallets serv) k)" for k
    by simp
  have ids: "idsConsistent (serv\<lparr>wallets := wlts,
      firstAddrIDMap := (firstAddrIDMap serv)(a \<mapsto> Filename w)\<rparr>)"
    using assms(1) by (auto simp: regOk_def idsConsistent_def get split: if_splits)
  have "indexExact (serv\<lparr>wallets := wlts,
      firstAddrIDMap := (firstAddrIDMap serv)(a \<mapsto> Filename w)\<rparr>)"
    unfolding indexExact_def
  proof (intro conjI allI impI)
    fix wltID v
    assume "wallets_get (wallets (serv\<lparr>wallets := wlts,
      firstAddrIDMap := (firstAddrIDMap serv)(a \<mapsto> Filename w)\<rparr>)) wltID = Some v"
    then have c: "(wltID = Filename w \<and> v = w) \<or>
        (wltID \<noteq> Filename w \<and> wallets_get (wallets serv) wltID = Some v)"
      by (auto simp: get split: if_splits)
    show "\<exists>b. firstAddress v = Some b \<and>
        firstAddrIDMap (serv\<lparr>wallets := wlts,
          firstAddrIDMap := (firstAddrIDMap serv)(a \<mapsto> Filename w)\<rparr>) b = Some wltID"
    proof (cases "wltID = Filename w")
      case True
      with c assms(3) show ?thesis by auto
    next
      case False
      with c have "wallets_get (wallets serv) wltID = Some v" by simp
      with assms(1) obtain b where b: "firstAddress v = Some b" "firstAddrIDMap serv b = Some wltID"
        unfolding regOk_def indexExact_def by blast
      with assms(4) have "b \<noteq> a" by auto
      with b show ?thesis by simp
    qed
  next
    fix b wltID
    assume i: "firstAddrIDMap (serv\<lparr>wallets := wlts,
      firstAddrIDMap := (firstAddrIDMap serv)(a \<mapsto> Filename w)\<rparr>) b = Some wltID"
    show "\<exists>v. wallets_get (wallets (serv\<lparr>wallets := wlts,
        firstAddrIDMap := (firstAddrIDMap serv)(a \<mapsto> Filename w)\<rparr>)) wltID = Some v \<and>
        firstAddress v = Some b"
    proof (cases "b = a")
      case True
      with i assms(3) show ?thesis by (simp add: get)
    next
      case False
      with i have "firstAddrIDMap serv b = Some wltID" by simp
      with assms(1) obtain v where v: "wallets_get (wallets serv) wltID = Some v"
        "firstAddress v = Some b"
        unfolding regOk_def indexExact_def by blast
      with fresh have "wltID \<noteq> Filename w" by auto
      with v show ?thesis by (simp add: get)
    qed
  qed
  with ids show ?thesis by (simp add: regOk_def)
qed

lemma loadWallet_regOk:
  assumes "regOk serv" and "loadWallet c serv wltName options bg = (r, serv')"
  shows "regOk serv'"
proof (cases "serv' = serv")
  case True
  with assms(1) show ?thesis by simp
next
  case False
  let ?o = "if optEncrypt options then options\<lparr>optCryptoType := CryptoType (config serv)\<rparr>
            else options"
  from False assms(2) obtain w where scan: "NewWalletScanAhead c wltName ?o bg = Inr w"
    by (cases "NewWalletScanAhead c wltName ?o bg") (auto simp: loadWallet_def Let_def)
  from False assms(2) scan obtain e es where e: "Entries w = e # es"
    by (cases "Entries w") (auto simp: loadWallet_def Let_def)
  from False assms(2) scan e have idx: "firstAddrIDMap serv (Address e) = None"
    by (cases "firstAddrIDMap serv (Address e)") (auto simp: loadWallet_def Let_def)
  from False assms(2) scan e idx obtain wlts where add: "wallets_add (wallets serv) w = Inr wlts"
    by (cases "wallets_add (wallets serv) w") (auto simp: loadWallet_def Let_def)
  have undo: "serv\<lparr>wallets := wallets_remove wlts (Filename w)\<rparr> = serv"
    by (simp add: wallets_add_undo [OF add])
  from False assms(2) scan e idx add undo have
    st: "serv' = serv\<lparr>wallets := wlts,
           firstAddrIDMap := (firstAddrIDMap serv)(Address e \<mapsto> Filename w)\<rparr>"
    by (cases "Save c w (WalletDir (config serv))") (auto simp: loadWallet_def Let_def)
  have "firstAddress w = Some (Address e)" using e by (simp add: firstAddress_def)
  from regOk_add [OF assms(1) add this idx] st show ?thesis by simp
qed

lemma CreateWallet_regOk:
  assumes "regOk serv" and "CreateWallet c serv wltName options bg = Some (r, serv')"
  shows "regOk serv'"
  using assms
  by (auto simp: CreateWallet_def split: if_splits option.splits dest: loadWallet_regOk)

lemma UnloadWallet_regOk:
  assumes "regOk serv" and "UnloadWallet serv wltID = (r, serv')"
  shows "regOk serv'"
proof (cases "EnableWalletAPI (config serv)")
  case False
  with assms show ?thesis by (simp add: UnloadWallet_def)
next
  case True
  have rem: "wallets_get (wallets_remove wlts wltID) k =
      (if k = wltID then None else wallets_get wlts k)" for wlts k
    by (simp add: wallets_get_def wallets_remove_def delete_conv')
  show ?thesis
  proof (cases "wallets_get (wallets serv) wltID")
    case None
    then have "wallets_remove (wallets serv) wltID = wallets serv"
      by (rule wallets_remove_absent)
    with None True assms show ?thesis by (auto simp: UnloadWallet_def Let_def)
  next
    case (Some w)
    with assms(1) obtain a where a: "firstAddress w = Some a" "firstAddrIDMap serv a = Some wltID"
      unfolding regOk_def indexExact_def by blast
    then obtain e es where e: "Entries w = e # es" "Address e = a"
      using firstAddress_Cons by blast
    from True Some e assms(2) have st: "serv' = serv\<lparr>wallets := wallets_remove (wallets serv) wltID,
        firstAddrIDMap := (firstAddrIDMap serv)(a := None)\<rparr>"
      by (auto simp: UnloadWallet_def Let_def)
    have ids: "idsConsistent serv'"
      using assms(1) by (auto simp: st regOk_def idsConsistent_def rem split: if_splits)
    have "indexExact serv'"
      unfolding indexExact_def
    proof (intro conjI allI impI)
      fix k v
      assume "wallets_get (wallets serv') k = Some v"
      then have k: "k \<noteq> wltID" "wallets_get (wallets serv) k = Some v"
        by (auto simp: st rem split: if_splits)
      with assms(1) obtain b where b: "firstAddress v = Some b" "firstAddrIDMap serv b = Some k"
        unfolding regOk_def indexExact_def by blast
      with a k have "b \<noteq> a" by auto
      with b show "\<exists>b. firstAddress v = Some b \<and> firstAddrIDMap serv' b = Some k"
        by (simp add: st)
    next
      fix b k
      assume "firstAddrIDMap serv' b = Some k"
      then have b: "b \<noteq> a" "firstAddrIDMap serv b = Some k"
        by (auto simp: st split: if_splits)
      with assms(1) obtain v where v: "wallets_get (wallets serv) k = Some v"
        "firstAddress v = Some b"
        unfolding regOk_def indexExact_def by blast
      with Some a b have "k \<noteq> wltID" by auto
      with v show "\<exists>v. wallets_get (wallets serv') k = Some v \<and> firstAddress v = Some b"
        by (simp add: st rem)
    qed
    with ids show ?thesis by (simp add: regOk_def)
  qed
qed

lemma containsDuplicateFrom_None:
  "containsDuplicateFrom seen wlts = None \<Longrightarrow>
   distinct (firstAddresses wlts) \<and> set (firstAddresses wlts) \<inter> set seen = {}"
proof (induction wlts arbitrary: seen)
  case Nil
  then show ?case by (simp add: firstAddresses_def)
next
  case (Cons p wlts)
  obtain k w where p: "p = (k, w)" by (cases p)
  show ?case
  proof (cases "Entries w")
    case Nil
    with Cons p show ?thesis by (simp add: firstAddresses_def)
  next
    case (Cons e es)
    with Cons.prems p have n: "Address e \<notin> set seen"
      and r: "containsDuplicateFrom (Address e # seen) wlts = None"
      by (auto split: if_splits)
    from Cons.IH [OF r] n Cons p show ?thesis
      by (auto simp: firstAddresses_def)
  qed
qed

lemma setWalletsIndex_other:
  "setWalletsIndex wlts idx0 = Inr idx \<Longrightarrow> a \<notin> set (firstAddresses wlts) \<Longrightarrow> idx a = idx0 a"
proof (induction wlts arbitrary: idx0)
  case Nil
  then show ?case by simp
next
  case (Cons p wlts)
  obtain k w where p: "p = (k, w)" by (cases p)
  from Cons.prems p obtain e es where e: "Entries w = e # es"
    by (cases "Entries w") auto
  with Cons.prems p have r: "setWalletsIndex wlts (idx0(Address e \<mapsto> k)) = Inr idx"
    and n: "a \<noteq> Address e" "a \<notin> set (firstAddresses wlts)"
    by (auto simp: firstAddresses_def)
  from Cons.IH [OF r n(2)] n(1) show ?case by simp
qed

lemma setWalletsIndex_member:
  "setWalletsIndex wlts idx0 = Inr idx \<Longrightarrow> distinct (firstAddresses wlts) \<Longrightarrow>
   (k, w) \<in> set wlts \<Longrightarrow> \<exists>a. firstAddress w = Some a \<and> idx a = Some k"
proof (induction wlts arbitrary: idx0)
  case Nil
  then show ?case by simp
next
  case (Cons p wlts)
  obtain k' w' where p: "p = (k', w')" by (cases p)
  from Cons.prems(1) p obtain e es where e: "Entries w' = e # es"
    by (cases "Entries w'") auto
  with Cons.prems p have r: "setWalletsIndex wlts (idx0(Address e \<mapsto> k')) = Inr idx"
    and d: "Address e \<notin> set (firstAddresses wlts)" "distinct (firstAddresses wlts)"
    by (auto simp: firstAddresses_def)
  show ?case
  proof (cases "(k, w) = (k', w')")
    case True
    with setWalletsIndex_other [OF r d(1)] e show ?thesis
      by (simp add: firstAddress_def)
  next
    case False
    with Cons.prems(3) p have "(k, w) \<in> set wlts" by auto
    from Cons.IH [OF r d(2) this] show ?thesis .
  qed
qed

lemma setWalletsIndex_source:
  "setWalletsIndex wlts idx0 = Inr idx \<Longrightarrow> idx a = Some k \<Longrightarrow>
   idx0 a = Some k \<or> (\<exists>w. (k, w) \<in> set wlts \<and> firstAddress w = Some a)"
proof (induction wlts arbitrary: idx0)
  case Nil
  then show ?case by simp
next
  case (Cons p wlts)
  obtain k' w' where p: "p = (k', w')" by (cases p)
  from Cons.prems(1) p obtain e es where e: "Entries w' = e # es"
    by (cases "Entries w'") auto
  with Cons.prems p have r: "setWalletsIndex wlts (idx0(Address e \<mapsto> k')) = Inr idx"
    by simp
  from Cons.IH [OF r Cons.prems(2)] show ?case
  proof
    assume "(idx0(Address e \<mapsto> k')) a = Some k"
    then show ?thesis using p e by (auto simp: firstAddress_def split: if_splits)
  next
    assume "\<exists>w. (k, w) \<in> set wlts \<and> firstAddress w = Some a"
    then show ?thesis by auto
  qed
qed

lemma NewService_regOk:
  assumes "collabKeepsIdentity c" and "NewService c cfg = Inr serv"
  shows "regOk serv"
proof (cases "EnableWalletAPI cfg")
  case False
  with assms(2) have "serv = \<lparr>wallets = [], config = cfg, firstAddrIDMap = Map.empty\<rparr>"
    by (simp add: NewService_def Let_def)
  then show ?thesis
    by (simp add: regOk_def idsConsistent_def indexExact_def wallets_get_def)
next
  case True
  with assms(2) obtain wlts where load: "LoadWallets c (WalletDir cfg) = Inr wlts"
    by (cases "LoadWallets c (WalletDir cfg)")
       (auto simp: NewService_def Let_def split: option.splits)
  from True assms(2) load have dup: "containsDuplicate wlts = None"
    by (cases "containsDuplicate wlts") (auto simp: NewService_def Let_def split: option.splits)
  from True assms(2) load dup obtain idx where
    idx: "setWalletsIndex wlts Map.empty = Inr idx"
    and st: "serv = \<lparr>wallets = wlts, config = cfg, firstAddrIDMap = idx\<rparr>"
    by (cases "setWalletsIndex wlts Map.empty")
       (auto simp: NewService_def Let_def setWallets_def split: option.splits)
  from collab_LoadWallets [OF assms(1) load] have dk: "distinct (map fst wlts)"
    and fk: "\<forall>(k, w) \<in> set wlts. Filename w = k"
    by simp_all
  from containsDuplicateFrom_None [of "[]" wlts] dup have da: "distinct (firstAddresses wlts)"
    by (simp add: containsDuplicate_def)
  have ids: "idsConsistent serv"
    using fk by (auto simp: idsConsistent_def st wallets_get_def dest!: map_of_SomeD)
  have "indexExact serv"
    unfolding indexExact_def
  proof (intro conjI allI impI)
    fix k w
    assume "wallets_get (wallets serv) k = Some w"
    then have "(k, w) \<in> set wlts" by (auto simp: st wallets_get_def dest: map_of_SomeD)
    from setWalletsIndex_member [OF idx da this]
    show "\<exists>a. firstAddress w = Some a \<and> firstAddrIDMap serv a = Some k" by (simp add: st)
  next
    fix a k
    assume "firstAddrIDMap serv a = Some k"
    then have "idx a = Some k" by (simp add: st)
    from setWalletsIndex_source [OF idx this] obtain w where
      "(k, w) \<in> set wlts" "firstAddress w = Some a" by auto
    with dk show "\<exists>w. wallets_get (wallets serv) k = Some w \<and> firstAddress w = Some a"
      by (auto simp: st wallets_get_def)
  qed
  with ids show ?thesis by (simp add: regOk_def)
qed

lemma reachable_regOk:
  "reachable callbackKeepsIdentity serv \<Longrightarrow> regOk serv"
proof (induction rule: reachable.induct)
  case (init c cfg serv)
  then show ?case by (rule NewService_regOk)
next
  case (create serv c wltName options bg r1 serv')
  then show ?case by (blast intro: CreateWallet_regOk)
next
  case (encrypt serv c wltID password r1 serv')
  then show ?case by (blast intro: regOk_setStep EncryptWallet_step)
next
  case (decrypt serv c wltID password r1 serv')
  then show ?case by (blast intro: regOk_setStep DecryptWallet_step)
next
  case (newAddresses serv c wltID password num r2 serv')
  then show ?case by (blast intro: regOk_setStep NewAddresses_step)
next
  case (updateLabel serv c wltID label r3 serv')
  then show ?case by (blast intro: regOk_setStep UpdateWalletLabel_step)
next
  case (unload serv wltID r3 serv')
  then show ?case by (blast intro: UnloadWallet_regOk)
next
  case (updateSecrets serv c f wltID password r4 serv')
  then show ?case by (blast intro: regOk_setStep UpdateSecrets_step)
next
  case (update serv c f wltID r4 serv')
  then show ?case by (blast intro: regOk_setStep Update_step)
next
  case (recover serv c wltName sd password r1 serv')
  then have "setStep serv wltName serv'"
    by (auto intro: RecoverWallet_step simp: regOk_def)
  with recover show ?case by (blast intro: regOk_setStep)
qed

text \<open>
  Claim C2, as amended. In every state reachable from a successfully initialized service by
  the operations of the service, where the callbacks handed to \<^verbatim>\<open>UpdateSecrets\<close> and
  \<^verbatim>\<open>Update\<close> leave the id and the first address of the wallet as they are (and the
  collaborators do so too), the index is exact: every wallet of the map has a first address
  that the index sends to the wallet's id, and the index has no other entry. For arbitrary
  callbacks the claim fails (the second run below): no operation that sets a wallet touches
  the index.
\<close>

theorem C2_index_exact_reachable:
  assumes "reachable callbackKeepsIdentity serv"
  shows "indexExact serv"
  using reachable_regOk [OF assms] by (simp add: regOk_def)

lemma restoreKeys_first:
  "(case restoreKeys es ks of [] \<Rightarrow> None | e # _ \<Rightarrow> Some (Address e)) =
   (case es of [] \<Rightarrow> None | e # _ \<Rightarrow> Some (Address e))"
  by (cases es; cases ks) simp_all

lemma refLock_keeps: "refLock w pw ct = Inr w' \<Longrightarrow> keepsIdentity w w'"
  by (cases "Entries w")
     (auto simp: refLock_def keepsIdentity_def firstAddress_def split: if_splits)

lemma refUnlock_keeps: "refUnlock w pw = Inr w' \<Longrightarrow> keepsIdentity w w'"
  by (auto simp: refUnlock_def keepsIdentity_def firstAddress_def restoreKeys_first
      split: if_splits option.splits)

lemma refGenerate_keeps:
  "refGenerateSkycoinAddresses w n = Inr (w', addrs) \<Longrightarrow> keepsIdentity w w'"
  by (cases "Entries w")
     (auto simp: refGenerateSkycoinAddresses_def keepsIdentity_def firstAddress_def Let_def
      split: if_splits)

lemma upt_max_one: "[0..<max (Suc 0) n] = 0 # [Suc 0..<max (Suc 0) n]"
  by (simp add: upt_conv_Cons)

lemma refNewWallet_name: "refNewWallet name opts = Inr w \<Longrightarrow> Filename w = name"
  by (auto simp: refNewWallet_def refLock_def Let_def split: if_splits)

lemma refNewWallet_first:
  "refNewWallet name opts = Inr w \<Longrightarrow>
   firstAddress w = Some (''addr-'' @ optSeed opts) \<and> optSeed opts \<noteq> []"
  by (auto simp: refNewWallet_def refLock_def Let_def firstAddress_def upt_max_one
      deriveEntry_def split: if_splits)

lemma refCollab_keeps: "collabKeepsIdentity refCollab"
  unfolding collabKeepsIdentity_def
proof (intro conjI allI impI)
  fix w pw ct w'
  assume "Lock refCollab w pw ct = Inr w'"
  then show "keepsIdentity w w'" by (simp add: refCollab_def refLock_keeps)
next
  fix w pw w'
  assume "Unlock refCollab w pw = Inr w'"
  then show "keepsIdentity w w'" by (simp add: refCollab_def refUnlock_keeps)
next
  fix w n w' addrs
  assume "GenerateSkycoinAddresses refCollab w n = Inr (w', addrs)"
  then show "keepsIdentity w w'" by (simp add: refCollab_def refGenerate_keeps)
next
  fix name opts wNew
  assume "NewWallet refCollab name opts = Inr wNew"
  then show "Filename wNew = name" by (simp add: refCollab_def refNewWallet_name)
next
  fix name opts wNew pk sk w
  assume n: "NewWallet refCollab name opts = Inr wNew"
    and k: "GenerateDeterministicKeyPair refCollab (optSeed opts) = Inr (pk, sk)"
  from n have "firstAddress wNew = Some (''addr-'' @ optSeed opts)" "optSeed opts \<noteq> []"
    using refNewWallet_first [of name opts wNew] by (simp_all add: refCollab_def)
  with k show "firstAddress wNew = Some (addressConstructor refCollab w pk)"
    by (auto simp: refCollab_def deriveEntry_def)
next
  fix dir wlts
  assume "LoadWallets refCollab dir = Inr wlts"
  then have "wlts = []" by (auto simp: refCollab_def)
  then show "distinct (map fst wlts)" "\<forall>(k, w) \<in> set wlts. Filename w = k" by simp_all
qed

lemma ex_init: "NewService refCollab (exConfig ''/tmp'') = Inr exEmpty"
  by (simp add: NewService_def refCollab_def exConfig_def exEmpty_def Let_def
      containsDuplicate_def setWallets_def)

lemma ex_create:
  "CreateWallet refCollab exEmpty ''plain.wlt'' (exOptions ''s1'') noBalances =
     Some (Inr (exCreated ''plain.wlt'' ''s1''), exOne)"
proof -
  have scan: "NewWalletScanAhead refCollab ''plain.wlt'' (exOptions ''s1'') noBalances =
      Inr (exCreated ''plain.wlt'' ''s1'')"
    by (simp add: refCollab_def refNewWallet_exOptions)
  have o: "\<not> optEncrypt (exOptions ''s1'')" by (simp add: exOptions_def)
  have e: "Entries (exCreated ''plain.wlt'' ''s1'') =
      [\<lparr>Address = ''addr-s1'', Public = ''pub-s1'', Secret = ''sec-s1''\<rparr>]"
    "Filename (exCreated ''plain.wlt'' ''s1'') = ''plain.wlt''"
    by (simp_all add: exCreated_def)
  show ?thesis
    by (simp add: CreateWallet_def loadWallet_def o scan e Let_def)
       (simp add: exEmpty_def exOne_def exConfig_def wallets_add_def clone_def e
          refCollab_def)
qed

lemma ex_relabel:
  "Update refCollab exOne ''plain.wlt'' relabel = (Inr (), exRelabelled)"
  by (simp add: Update_def getWallet_def wallets_get_def clone_def relabel_def wallets_set_def
      exOne_def exRelabelled_def exConfig_def exCreated_def)

lemma ex_replace:
  "Update refCollab exOne ''plain.wlt'' replaceEntries = (Inr (), exBroken)"
  by (simp add: Update_def getWallet_def wallets_get_def clone_def replaceEntries_def
      wallets_set_def exOne_def exBroken_def exConfig_def exCreated_def)

lemma relabel_keeps: "callbackKeepsIdentity relabel"
  by (auto simp: callbackKeepsIdentity_def relabel_def keepsIdentity_def firstAddress_def)

lemma exOne_reachable: "reachable P exOne"
  by (rule reachable.create [OF reachable.init [OF refCollab_keeps ex_init] refCollab_keeps ex_create])

theorem C2_witness:
  "callbackKeepsIdentity relabel \<and>
   NewService refCollab (exConfig ''/tmp'') = Inr exEmpty \<and>
   CreateWallet refCollab exEmpty ''plain.wlt'' (exOptions ''s1'') noBalances =
     Some (Inr (exCreated ''plain.wlt'' ''s1''), exOne) \<and>
   Update refCollab exOne ''plain.wlt'' relabel = (Inr (), exRelabelled) \<and>
   reachable (callbackKeepsIdentity :: unit callback \<Rightarrow> bool) exRelabelled \<and>
   indexExact exRelabelled"
proof -
  have r: "reachable (callbackKeepsIdentity :: unit callback \<Rightarrow> bool) exRelabelled"
    by (rule reachable.update [where P = callbackKeepsIdentity and f = relabel,
          OF exOne_reachable refCollab_keeps relabel_keeps ex_relabel])
  from C2_index_exact_reachable [OF r] r relabel_keeps ex_init ex_create ex_relabel
  show ?thesis by simp
qed

text \<open>
  Claim C2 as stated fails. From an empty wallet directory, \<^verbatim>\<open>CreateWallet\<close> of
  \<open>plain.wlt\<close> from the seed \<open>s1\<close> gives an exact index; \<^verbatim>\<open>Update\<close> of \<open>plain.wlt\<close>
  with a callback that replaces the entries then succeeds and sets the changed wallet, whose
  first address \<open>addr-other\<close> is not in the index, while the index still holds \<open>addr-s1\<close>.
\<close>

theorem C2_counterexample:
  "NewService refCollab (exConfig ''/tmp'') = Inr exEmpty \<and>
   CreateWallet refCollab exEmpty ''plain.wlt'' (exOptions ''s1'') noBalances =
     Some (Inr (exCreated ''plain.wlt'' ''s1''), exOne) \<and>
   indexExact exOne \<and>
   Update refCollab exOne ''plain.wlt'' replaceEntries = (Inr (), exBroken) \<and>
   reachable (anyCallback :: unit callback \<Rightarrow> bool) exBroken \<and>
   wallets_get (wallets exBroken) ''plain.wlt'' =
     Some ((exCreated ''plain.wlt'' ''s1'')\<lparr>Entries := [deriveEntry ''other'' 0]\<rparr>) \<and>
   firstAddrIDMap exBroken ''addr-other'' = None \<and>
   firstAddrIDMap exBroken ''addr-s1'' = Some ''plain.wlt'' \<and>
   \<not> indexExact exBroken"
proof -
  have r: "reachable (anyCallback :: unit callback \<Rightarrow> bool) exBroken"
    by (rule reachable.update [where P = anyCallback and f = replaceEntries,
          OF exOne_reachable refCollab_keeps _ ex_replace])
       (simp add: anyCallback_def)
  have one: "indexExact exOne"
    by (auto simp: indexExact_def exOne_def wallets_get_def firstAddress_def exCreated_def
        split: if_splits)
  have g: "wallets_get (wallets exBroken) ''plain.wlt'' =
      Some ((exCreated ''plain.wlt'' ''s1'')\<lparr>Entries := [deriveEntry ''other'' 0]\<rparr>)"
    by (simp add: exBroken_def wallets_get_def)
  have i: "firstAddrIDMap exBroken ''addr-other'' = None"
    "firstAddrIDMap exBroken ''addr-s1'' = Some ''plain.wlt''"
    by (simp_all add: exBroken_def exOne_def)
  have f: "firstAddress ((exCreated ''plain.wlt'' ''s1'')\<lparr>Entries := [deriveEntry ''other'' 0]\<rparr>) =
      Some ''addr-other''"
    by (simp add: firstAddress_def deriveEntry_def)
  have "\<not> indexExact exBroken"
  proof
    assume "indexExact exBroken"
    with g obtain a where "firstAddress ((exCreated ''plain.wlt'' ''s1'')\<lparr>Entries := [deriveEntry ''other'' 0]\<rparr>) = Some a"
      "firstAddrIDMap exBroken a = Some ''plain.wlt''"
      unfolding indexExact_def by blast
    with f i(1) show False by simp
  qed
  with r one g i ex_init ex_create ex_replace show ?thesis by simp
qed

text \<open>
  Claim C3 as stated fails. The state \<open>exBroken\<close> is reachable (create \<open>plain.wlt\<close>, then
  \<^verbatim>\<open>Update\<close> with a callback that replaces the entries) and holds a wallet whose first
  address is \<open>addr-other\<close>, which is not in the index. \<^verbatim>\<open>CreateWallet\<close> of \<open>dup.wlt\<close> from the
  seed \<open>other\<close>, which derives the first address \<open>addr-other\<close>, then succeeds: the registry
  holds two wallets with the same first address.
\<close>

lemma exBroken_reachable: "reachable (anyCallback :: unit callback \<Rightarrow> bool) exBroken"
  by (rule reachable.update [where P = anyCallback and f = replaceEntries,
        OF exOne_reachable refCollab_keeps _ ex_replace])
     (simp add: anyCallback_def)

theorem C3_counterexample:
  "reachable (anyCallback :: unit callback \<Rightarrow> bool) exBroken \<and>
   EnableWalletAPI (config exBroken) \<and>
   wallets_get (wallets exBroken) ''plain.wlt'' =
     Some ((exCreated ''plain.wlt'' ''s1'')\<lparr>Entries := [deriveEntry ''other'' 0]\<rparr>) \<and>
   firstAddress ((exCreated ''plain.wlt'' ''s1'')\<lparr>Entries := [deriveEntry ''other'' 0]\<rparr>) =
     Some ''addr-other'' \<and>
   NewWalletScanAhead refCollab ''dup.wlt'' (exOptions ''other'') noBalances =
     Inr (exCreated ''dup.wlt'' ''other'') \<and>
   firstAddress (exCreated ''dup.wlt'' ''other'') = Some ''addr-other'' \<and>
   CreateWallet refCollab exBroken ''dup.wlt'' (exOptions ''other'') noBalances =
     Some (Inr (exCreated ''dup.wlt'' ''other''), exDup) \<and>
   CreateWallet refCollab exBroken ''dup.wlt'' (exOptions ''other'') noBalances \<noteq>
     Some (Inl ErrSeedUsed, exBroken) \<and>
   length (wallets exBroken) = 1 \<and> length (wallets exDup) = 2"
proof -
  have en: "EnableWalletAPI (config exBroken)"
    by (simp add: exBroken_def exOne_def exConfig_def)
  have g: "wallets_get (wallets exBroken) ''plain.wlt'' =
      Some ((exCreated ''plain.wlt'' ''s1'')\<lparr>Entries := [deriveEntry ''other'' 0]\<rparr>)"
    by (simp add: exBroken_def wallets_get_def)
  have f: "firstAddress ((exCreated ''plain.wlt'' ''s1'')\<lparr>Entries := [deriveEntry ''other'' 0]\<rparr>) =
      Some ''addr-other''"
    "firstAddress (exCreated ''dup.wlt'' ''other'') = Some ''addr-other''"
    by (simp_all add: firstAddress_def deriveEntry_def exCreated_def)
  have scan: "NewWalletScanAhead refCollab ''dup.wlt'' (exOptions ''other'') noBalances =
      Inr (exCreated ''dup.wlt'' ''other'')"
    by (simp add: refCollab_def refNewWallet_exOptions)
  have o: "\<not> optEncrypt (exOptions ''other'')" by (simp add: exOptions_def)
  have e: "Entries (exCreated ''dup.wlt'' ''other'') =
      [\<lparr>Address = ''addr-other'', Public = ''pub-other'', Secret = ''sec-other''\<rparr>]"
    "Filename (exCreated ''dup.wlt'' ''other'') = ''dup.wlt''"
    by (simp_all add: exCreated_def)
  have run: "CreateWallet refCollab exBroken ''dup.wlt'' (exOptions ''other'') noBalances =
      Some (Inr (exCreated ''dup.wlt'' ''other''), exDup)"
    by (simp add: CreateWallet_def loadWallet_def en o scan e Let_def)
       (simp add: exBroken_def exOne_def exDup_def exConfig_def wallets_add_def clone_def e
          refCollab_def)
  have l: "length (wallets exBroken) = 1" "length (wallets exDup) = 2"
    by (simp_all add: exBroken_def exDup_def)
  from exBroken_reachable en g f scan run l show ?thesis by simp
qed

end
